theory Spec2Isabelle
  imports Main
begin

section \<open>The Envirofacts client of Get_GHGRP_data.py\<close>

text \<open>
  The class \<open>GHGRP_API\<close> downloads a table of the Envirofacts service in slices of
  10,000 rows. Its methods call two libraries: \<open>requests.get\<close>, read for its status
  code, and \<open>pandas.read_csv\<close>, which fetches a URL again and parses the body. Both are
  parameters of the model; everything the class itself computes (URLs, the count
  extraction, the year qualifier, the chunk boundaries, the merge) is defined below,
  method by method.
\<close>

subsection \<open>Python values\<close>

text \<open>
  A cell of a table parsed by \<open>read_csv\<close>: an integer, a string, or the missing value.
  Finite floating-point cells are not part of the model.
\<close>

datatype cell = IntCell int | StrCell string | NaN

text \<open>
  A \<open>DataFrame\<close>: the column labels and the rows in order. \<open>read_csv\<close> makes the
  labels strings and renames repeated ones, so a label names at most one column.
\<close>

record dataframe =
  columns :: "string list"
  records :: "cell list list"

text \<open>
  The exceptions the class raises itself (\<open>assert\<close> and \<open>raise ValueError\<close>), those of
  the built-ins it calls on a response (\<open>int\<close>, indexing), and the exceptions raised
  inside a library call, which are opaque.
\<close>

datatype error =
    AssertionError string
  | ValueError string
  | IndexError string
  | LibraryError string

text \<open>One network round trip: the status probe of \<open>requests.get\<close> or the download of \<open>read_csv\<close>.\<close>

datatype request = Probe string | Fetch string

text \<open>
  The remote service as the two library calls see it. The first argument is the number of
  round trips made before the call, so the service may answer the same URL differently
  each time. \<open>Inl\<close> is an exception raised inside the library.
\<close>

record remote =
  requests_get :: "nat \<Rightarrow> string \<Rightarrow> string + int"
  pd_read_csv :: "nat \<Rightarrow> string \<Rightarrow> string + dataframe"

text \<open>A method: from the round trips so far to its outcome and the round trips after it.\<close>

type_synonym 'a io = "request list \<Rightarrow> (error + 'a) \<times> request list"

subsection \<open>Formatting and parsing integers\<close>

definition digit_char :: "nat \<Rightarrow> char" where
  "digit_char d = ''0123456789'' ! d"

function str_nat :: "nat \<Rightarrow> string" where
  "str_nat n = (if n < 10 then [digit_char n] else str_nat (n div 10) @ [digit_char (n mod 10)])"
  by pat_completeness auto
termination
  by (relation "measure id") auto

declare str_nat.simps [simp del]

text \<open>What an f-string prints for an integer: \<open>str(i)\<close>.\<close>

definition str_int :: "int \<Rightarrow> string" where
  "str_int i = (if i < 0 then CHR ''-'' # str_nat (nat (- i)) else str_nat (nat i))"

text \<open>
  \<open>int(s)\<close> on a string of ASCII characters: surrounding white space is dropped, a sign
  may lead, then decimal digits, single underscores allowed between digits. The limit of
  recent interpreters on the number of digits is not modelled; the message of the error
  quotes the text.
\<close>

definition is_space :: "char \<Rightarrow> bool" where
  "is_space c = ((of_char c :: nat) \<in> {9, 10, 11, 12, 13, 28, 29, 30, 31, 32})"

definition strip :: "string \<Rightarrow> string" where
  "strip s = rev (dropWhile is_space (rev (dropWhile is_space s)))"

definition digit_val :: "char \<Rightarrow> nat option" where
  "digit_val c = (let n = (of_char c :: nat) in if 48 \<le> n \<and> n \<le> 57 then Some (n - 48) else None)"

fun parse_digits :: "nat \<Rightarrow> bool \<Rightarrow> string \<Rightarrow> nat option" where
  "parse_digits acc after_digit [] = (if after_digit then Some acc else None)"
| "parse_digits acc after_digit (c # cs) =
     (if c = CHR ''_'' then (if after_digit then parse_digits acc False cs else None)
      else (case digit_val c of
              None \<Rightarrow> None
            | Some v \<Rightarrow> parse_digits (acc * 10 + v) True cs))"

definition invalid_literal :: "string \<Rightarrow> error" where
  "invalid_literal s = ValueError (''invalid literal for int() with base 10: '' @ s)"

definition int_of_str :: "string \<Rightarrow> error + int" where
  "int_of_str s =
     (case strip s of
        [] \<Rightarrow> Inl (invalid_literal s)
      | c # cs \<Rightarrow>
          (if c = CHR ''-'' then
             (case parse_digits 0 False cs of
                None \<Rightarrow> Inl (invalid_literal s) | Some n \<Rightarrow> Inr (- int n))
           else if c = CHR ''+'' then
             (case parse_digits 0 False cs of
                None \<Rightarrow> Inl (invalid_literal s) | Some n \<Rightarrow> Inr (int n))
           else
             (case parse_digits 0 False (c # cs) of
                None \<Rightarrow> Inl (invalid_literal s) | Some n \<Rightarrow> Inr (int n))))"

text \<open>\<open>int(v)\<close> on a cell.\<close>

fun py_int :: "cell \<Rightarrow> error + int" where
  "py_int (IntCell i) = Inr i"
| "py_int (StrCell s) = int_of_str s"
| "py_int NaN = Inl (ValueError ''cannot convert float NaN to integer'')"

text \<open>\<open>str.lower\<close> on ASCII text.\<close>

definition lower_char :: "char \<Rightarrow> char" where
  "lower_char c = (let n = (of_char c :: nat) in if 65 \<le> n \<and> n \<le> 90 then char_of (n + 32) else c)"

definition lower :: "string \<Rightarrow> string" where
  "lower s = map lower_char s"

subsection \<open>The operations of pandas and numpy the class uses\<close>

text \<open>\<open>df.empty\<close>: an axis of length 0.\<close>

definition df_empty :: "dataframe \<Rightarrow> bool" where
  "df_empty df = (columns df = [] \<or> records df = [])"

text \<open>The position of a label among the columns.\<close>

fun index_of :: "'a \<Rightarrow> 'a list \<Rightarrow> nat option" where
  "index_of x [] = None"
| "index_of x (y # ys) = (if x = y then Some 0 else map_option Suc (index_of x ys))"

text \<open>A field of a row; a row shorter than the header is padded with the missing value.\<close>

definition cell_at :: "cell list \<Rightarrow> nat \<Rightarrow> cell" where
  "cell_at r i = (if i < length r then r ! i else NaN)"

text \<open>\<open>df[name].values\<close> for a label that is present.\<close>

definition column_values :: "dataframe \<Rightarrow> string \<Rightarrow> cell list" where
  "column_values df name =
     (case index_of name (columns df) of
        None \<Rightarrow> []
      | Some i \<Rightarrow> map (\<lambda>r. cell_at r i) (records df))"

text \<open>
  \<open>np.arange(start, stop, step, dtype=int)\<close> for a nonzero step: the values
  \<open>start + i * step\<close> for \<open>i\<close> below the ceiling of \<open>(stop - start) / step\<close>. Integers are
  Python's; the bound of int64 and a failed allocation are not modelled.
\<close>

definition np_arange :: "int \<Rightarrow> int \<Rightarrow> int \<Rightarrow> int list" where
  "np_arange start stop step =
     map (\<lambda>i. start + int i * step) [0..<nat (- ((start - stop) div step))]"

text \<open>
  \<open>pd.concat(frames)\<close>: the columns are the labels in order of first appearance, the rows
  those of each frame in turn, read under the new header (a column a frame lacks is
  missing in its rows). An empty list of frames is an error.
\<close>

definition reindex :: "string list \<Rightarrow> dataframe \<Rightarrow> cell list list" where
  "reindex cols df =
     map (\<lambda>r. map (\<lambda>c. case index_of c (columns df) of None \<Rightarrow> NaN | Some i \<Rightarrow> cell_at r i) cols)
       (records df)"

fun first_seen :: "'a list \<Rightarrow> 'a list \<Rightarrow> 'a list" where
  "first_seen seen [] = []"
| "first_seen seen (x # xs) =
     (if x \<in> set seen then first_seen seen xs else x # first_seen (x # seen) xs)"

definition pd_concat :: "dataframe list \<Rightarrow> error + dataframe" where
  "pd_concat frames =
     (if frames = [] then Inl (ValueError ''No objects to concatenate'')
      else let cols = first_seen [] (concat (map columns frames))
           in Inr \<lparr>columns = cols, records = concat (map (reindex cols) frames)\<rparr>)"

text \<open>\<open>df.drop_duplicates()\<close>: a row equal in every column to an earlier row is dropped.\<close>

definition drop_duplicates :: "dataframe \<Rightarrow> dataframe" where
  "drop_duplicates df = df\<lparr>records := first_seen [] (records df)\<rparr>"

subsection \<open>The methods of GHGRP_API\<close>

definition BASE_URL :: string where
  "BASE_URL = ''https://enviro.epa.gov/enviro/efservice/''"

text \<open>
  \<open>read_path\<close>: the assertion on the status code of \<open>requests.get(path)\<close>, then
  \<open>pd.read_csv(path)\<close>, which downloads the URL itself.
\<close>

definition read_path :: "remote \<Rightarrow> string \<Rightarrow> dataframe io" where
  "read_path w path log =
     (case requests_get w (length log) path of
        Inl m \<Rightarrow> (Inl (LibraryError m), log @ [Probe path])
      | Inr status_code \<Rightarrow>
          if status_code \<noteq> 200 then (Inl (AssertionError ''URL does not exist.''), log @ [Probe path])
          else (case pd_read_csv w (length log + 1) path of
                  Inl m \<Rightarrow> (Inl (LibraryError m), log @ [Probe path, Fetch path])
                | Inr df \<Rightarrow> (Inr df, log @ [Probe path, Fetch path])))"

text \<open>\<open>custom_query or ""\<close>: \<open>None\<close> and the empty string both give the empty string.\<close>

definition or_empty :: "string option \<Rightarrow> string" where
  "or_empty custom_query = (case custom_query of None \<Rightarrow> [] | Some q \<Rightarrow> q)"

text \<open>
  The three f-strings that build a URL (lines 81, 87 and 102). \<open>BASE_URL\<close> ends in a
  slash and each f-string adds one after it.
\<close>

definition slice_path :: "string \<Rightarrow> string option \<Rightarrow> int \<Rightarrow> int \<Rightarrow> string" where
  "slice_path table custom_query start_row end_row =
     (let custom_query = or_empty custom_query
      in BASE_URL @ ''/'' @ table @ ''/'' @ custom_query @ ''/rows/''
           @ str_int start_row @ '':'' @ str_int end_row @ ''/csv'')"

definition count_path :: "string \<Rightarrow> string option \<Rightarrow> string" where
  "count_path table custom_query =
     (let custom_query = or_empty custom_query
      in BASE_URL @ ''/'' @ table @ ''/'' @ custom_query @ ''/count/csv'')"

definition probe_path :: "string \<Rightarrow> string" where
  "probe_path table = BASE_URL @ ''/'' @ table @ ''/rows/0:1/csv''"

definition get_table_slice :: "remote \<Rightarrow> string \<Rightarrow> int \<Rightarrow> int \<Rightarrow> string option \<Rightarrow> dataframe io" where
  "get_table_slice w table start_row end_row custom_query log =
     read_path w (slice_path table custom_query start_row end_row) log"

definition get_row_count :: "remote \<Rightarrow> string \<Rightarrow> string option \<Rightarrow> int io" where
  "get_row_count w table custom_query log =
     (case read_path w (count_path table custom_query) log of
        (Inl e, log') \<Rightarrow> (Inl e, log')
      | (Inr df, log') \<Rightarrow>
          if ''TOTALQUERYRESULTS'' \<in> set (columns df) then
            (case column_values df ''TOTALQUERYRESULTS'' of
               [] \<Rightarrow> (Inl (IndexError ''index 0 is out of bounds for axis 0 with size 0''), log')
             | v # _ \<Rightarrow> (py_int v, log'))
          else if df_empty df then
            (case columns df of
               [] \<Rightarrow> (Inl (IndexError ''index 0 is out of bounds for axis 0 with size 0''), log')
             | c # _ \<Rightarrow> (int_of_str c, log'))
          else (Inl (ValueError ''Count file format not recognized.''), log'))"

definition get_reporting_year_query :: "remote \<Rightarrow> string \<Rightarrow> int option \<Rightarrow> string io" where
  "get_reporting_year_query w table reporting_year log =
     (case reporting_year of
        None \<Rightarrow> (Inr [], log)
      | Some y \<Rightarrow>
          (case read_path w (probe_path table) log of
             (Inl e, log') \<Rightarrow> (Inl e, log')
           | (Inr df, log') \<Rightarrow>
               if ''reporting_year'' \<in> set (map lower (columns df)) then
                 (Inr (''reporting_year/'' @ str_int y), log')
               else if ''year'' \<in> set (map lower (columns df)) then
                 (Inr (''year/'' @ str_int y), log')
               else (Inl (ValueError ''Column name for reporting year not recognized.''), log')))"

text \<open>
  Line 141 of \<open>get_data\<close>, \<open>max_row = rows or self.get_row_count(...)\<close>: the limit when it
  is given and not zero, the count of the service otherwise.
\<close>

definition get_max_row :: "remote \<Rightarrow> string \<Rightarrow> string \<Rightarrow> int option \<Rightarrow> int io" where
  "get_max_row w table reporting_year_query rows_limit log =
     (case rows_limit of
        None \<Rightarrow> get_row_count w table (Some reporting_year_query) log
      | Some r \<Rightarrow>
          if r \<noteq> 0 then (Inr r, log)
          else get_row_count w table (Some reporting_year_query) log)"

text \<open>Lines 144 to 147: the chunk boundaries.\<close>

definition row_range_of :: "int \<Rightarrow> int list" where
  "row_range_of max_row =
     (let row_range_without_max = np_arange 0 max_row 10000
      in row_range_without_max @ [max_row])"

text \<open>
  Lines 151 to 158: the loop over \<open>range(len(row_range) - 1)\<close>, appending each slice to
  \<open>ghgrp_data\<close>. An exception of a slice fetch leaves the loop.
\<close>

fun fetch_slices ::
  "remote \<Rightarrow> string \<Rightarrow> string \<Rightarrow> int list \<Rightarrow> nat list \<Rightarrow> dataframe list \<Rightarrow> (dataframe list) io" where
  "fetch_slices w table reporting_year_query row_range [] ghgrp_data log = (Inr ghgrp_data, log)"
| "fetch_slices w table reporting_year_query row_range (n # ns) ghgrp_data log =
     (case get_table_slice w table (row_range ! n) (row_range ! (n + 1))
             (Some reporting_year_query) log of
        (Inl e, log') \<Rightarrow> (Inl e, log')
      | (Inr table_slice, log') \<Rightarrow>
          fetch_slices w table reporting_year_query row_range ns (ghgrp_data @ [table_slice]) log')"

text \<open>Lines 159 to 161: \<open>pd.concat\<close>, then \<open>drop_duplicates\<close>.\<close>

definition merge_slices :: "dataframe list \<Rightarrow> error + dataframe" where
  "merge_slices ghgrp_data =
     (case pd_concat ghgrp_data of
        Inl e \<Rightarrow> Inl e
      | Inr df \<Rightarrow> Inr (drop_duplicates df))"

text \<open>Lines 144 to 165: what \<open>get_data\<close> does once \<open>max_row\<close> is known. \<open>None\<close> is Python's \<open>None\<close>.\<close>

definition get_chunks :: "remote \<Rightarrow> string \<Rightarrow> string \<Rightarrow> int \<Rightarrow> (dataframe option) io" where
  "get_chunks w table reporting_year_query max_row log =
     (let row_range = row_range_of max_row
      in if length row_range > 1 then
           (case fetch_slices w table reporting_year_query row_range
                   [0..<length row_range - 1] [] log of
              (Inl e, log') \<Rightarrow> (Inl e, log')
            | (Inr ghgrp_data, log') \<Rightarrow>
                (case merge_slices ghgrp_data of
                   Inl e \<Rightarrow> (Inl e, log')
                 | Inr df \<Rightarrow> (Inr (Some df), log')))
         else (Inr None, log))"

definition get_data :: "remote \<Rightarrow> string \<Rightarrow> int option \<Rightarrow> int option \<Rightarrow> (dataframe option) io" where
  "get_data w table reporting_year rows_limit log =
     (case get_reporting_year_query w table reporting_year log of
        (Inl e, log1) \<Rightarrow> (Inl e, log1)
      | (Inr reporting_year_query, log1) \<Rightarrow>
          (case get_max_row w table reporting_year_query rows_limit log1 of
             (Inl e, log2) \<Rightarrow> (Inl e, log2)
           | (Inr max_row, log2) \<Rightarrow> get_chunks w table reporting_year_query max_row log2))"

subsection \<open>Services used as concrete inputs\<close>

text \<open>
  A service that does not change: a URL it knows answers 200 and the table, any other
  URL answers 404 and the download fails.
\<close>

definition static_service :: "(string \<Rightarrow> dataframe option) \<Rightarrow> remote" where
  "static_service routes =
     \<lparr>requests_get = (\<lambda>n u. case routes u of None \<Rightarrow> Inr 404 | Some df \<Rightarrow> Inr 200),
      pd_read_csv = (\<lambda>n u. case routes u of None \<Rightarrow> Inl ''HTTP Error 404: Not Found'' | Some df \<Rightarrow> Inr df)\<rparr>"

definition facility_rows :: dataframe where
  "facility_rows =
     \<lparr>columns = [''FACILITY_ID'', ''REPORTING_YEAR''],
      records = [[IntCell 1000001, IntCell 2021], [IntCell 1000002, IntCell 2021]]\<rparr>"

text \<open>Responses: a count, and probes whose year column is spelled in different ways.\<close>

definition count_response :: dataframe where
  "count_response = \<lparr>columns = [''TOTALQUERYRESULTS''], records = [[IntCell 12000]]\<rparr>"

definition year_first :: dataframe where
  "year_first =
     \<lparr>columns = [''YEAR'', ''Reporting_Year'', ''FACILITY_ID''],
      records = [[IntCell 2021, IntCell 2021, IntCell 1000001]]\<rparr>"

definition year_only :: dataframe where
  "year_only = \<lparr>columns = [''FACILITY_ID'', ''YEAR''], records = [[IntCell 1000001, IntCell 2021]]\<rparr>"

text \<open>
  A table as \<open>read_csv\<close> returns it: distinct labels, and every row as long as the header.
\<close>

definition wf_df :: "dataframe \<Rightarrow> bool" where
  "wf_df df = (distinct (columns df) \<and> list_all (\<lambda>r. length r = length (columns df)) (records df))"

text \<open>
  A second slice that repeats the last row of \<open>facility_rows\<close>, and count responses: under
  the label the specification names, under the label the code tests, and the bare count.
\<close>

definition next_facility_rows :: dataframe where
  "next_facility_rows =
     \<lparr>columns = [''FACILITY_ID'', ''REPORTING_YEAR''],
      records = [[IntCell 1000002, IntCell 2021], [IntCell 1000003, IntCell 2021]]\<rparr>"

definition spec_count_response :: dataframe where
  "spec_count_response = \<lparr>columns = [''count of total results''], records = [[IntCell 42]]\<rparr>"

definition code_count_response :: dataframe where
  "code_count_response = \<lparr>columns = [''TOTALQUERYRESULTS''], records = [[IntCell 42]]\<rparr>"

definition bare_count_response :: dataframe where
  "bare_count_response = \<lparr>columns = [''0''], records = []\<rparr>"

text \<open>
  A service that answers 200 to the first \<open>k\<close> round trips and 503 afterwards.
\<close>

definition fails_after :: "nat \<Rightarrow> dataframe \<Rightarrow> remote" where
  "fails_after k df =
     \<lparr>requests_get = (\<lambda>n u. if n < k then Inr 200 else Inr 503),
      pd_read_csv = (\<lambda>n u. Inr df)\<rparr>"

text \<open>
  What a caller can read in an exception: its message. \<open>contains s t\<close> is Python's
  \<open>t in s\<close> on strings.
\<close>

definition error_message :: "error \<Rightarrow> string" where
  "error_message e = (case e of AssertionError m \<Rightarrow> m | ValueError m \<Rightarrow> m
                       | IndexError m \<Rightarrow> m | LibraryError m \<Rightarrow> m)"

fun starts_with :: "string \<Rightarrow> string \<Rightarrow> bool" where
  "starts_with s [] = True"
| "starts_with [] (c # t) = False"
| "starts_with (d # s) (c # t) = (d = c \<and> starts_with s t)"

fun contains :: "string \<Rightarrow> string \<Rightarrow> bool" where
  "contains [] t = (t = [])"
| "contains (d # s) t = (starts_with (d # s) t \<or> contains s t)"

text \<open>
  A service that cannot be reached (the probe itself raises), and one that answers 200 to
  every probe but whose body does not parse.
\<close>

definition offline :: remote where
  "offline =
     \<lparr>requests_get = (\<lambda>n u. Inl ''ConnectionError''),
      pd_read_csv = (\<lambda>n u. Inl ''URLError'')\<rparr>"

definition unparsable :: remote where
  "unparsable =
     \<lparr>requests_get = (\<lambda>n u. Inr 200),
      pd_read_csv = (\<lambda>n u. Inl ''ParserError'')\<rparr>"

text \<open>
  A service for one table of 12,000 rows, in two slices that overlap in one row; and the
  same service without its count endpoint.
\<close>

definition facility_service :: remote where
  "facility_service =
     static_service (\<lambda>u.
       if u = count_path ''PUB_DIM_FACILITY'' (Some []) then Some count_response
       else if u = slice_path ''PUB_DIM_FACILITY'' (Some []) 0 10000 then Some facility_rows
       else if u = slice_path ''PUB_DIM_FACILITY'' (Some []) 10000 12000 then Some next_facility_rows
       else None)"

definition slices_only :: remote where
  "slices_only =
     static_service (\<lambda>u.
       if u = slice_path ''PUB_DIM_FACILITY'' (Some []) 0 10000 then Some facility_rows
       else if u = slice_path ''PUB_DIM_FACILITY'' (Some []) 10000 12000 then Some next_facility_rows
       else None)"

text \<open>
  A slice that holds one row twice and ends with the first row of \<open>next_facility_rows\<close>.
\<close>

definition repeated_facility_rows :: dataframe where
  "repeated_facility_rows =
     \<lparr>columns = [''FACILITY_ID'', ''REPORTING_YEAR''],
      records = [[IntCell 1000001, IntCell 2021], [IntCell 1000001, IntCell 2021],
                 [IntCell 1000002, IntCell 2021]]\<rparr>"

section \<open>Chunk boundaries\<close>

lemma length_row_range_of:
  "length (row_range_of max_row) = Suc (nat (- ((0 - max_row) div 10000)))"
  by (simp add: row_range_of_def np_arange_def)









lemma merge_slices_nonempty: "dfs \<noteq> [] \<Longrightarrow> \<exists>df. merge_slices dfs = Inr df"
  by (simp add: merge_slices_def pd_concat_def Let_def)




section \<open>Reading a URL\<close>

lemma read_path_requests:
  "snd (read_path w path log) = log @ [Probe path] \<or>
   snd (read_path w path log) = log @ [Probe path, Fetch path]"
  by (simp add: read_path_def split: sum.splits)

lemma read_path_assertion:
  "(\<exists>m. fst (read_path w path log) = Inl (AssertionError m)) \<longleftrightarrow>
   (\<exists>s. requests_get w (length log) path = Inr s \<and> s \<noteq> 200)"
  by (auto simp add: read_path_def split: sum.splits)

lemma read_path_static:
  "routes path = Some df \<Longrightarrow>
   read_path (static_service routes) path log = (Inr df, log @ [Probe path, Fetch path])"
  "routes path = None \<Longrightarrow>
   read_path (static_service routes) path log =
     (Inl (AssertionError ''URL does not exist.''), log @ [Probe path])"
  by (simp_all add: read_path_def static_service_def)

text \<open>
  C8, as stated, fails: when the probe itself raises, it does not return 200, yet
  \<open>read_path\<close> fails with the error of the library, not with the assertion error.
\<close>

theorem probe_raises_counterexample:
  "read_path offline (probe_path ''PUB_DIM_FACILITY'') [] =
     (Inl (LibraryError ''ConnectionError''), [Probe (probe_path ''PUB_DIM_FACILITY'')])"
  by (simp add: read_path_def offline_def)

text \<open>
  C8, amended. \<open>read_path\<close> fails with the assertion error exactly when the probe returns
  a status other than 200; it then has made the probe alone, once. When the probe raises,
  its error is the outcome, after that one round trip. When the probe returns 200 the
  outcome is that of \<open>read_csv\<close> on its own download of the URL, the second round trip:
  the parsed table, or the error \<open>read_csv\<close> raises.
\<close>

theorem read_path_probe_then_fetch:
  "((\<exists>m. fst (read_path w path log) = Inl (AssertionError m)) \<longleftrightarrow>
      (\<exists>s. requests_get w (length log) path = Inr s \<and> s \<noteq> 200)) \<and>
   (requests_get w (length log) path = Inr s \<and> s \<noteq> 200 \<longrightarrow>
      read_path w path log = (Inl (AssertionError ''URL does not exist.''), log @ [Probe path])) \<and>
   (requests_get w (length log) path = Inl m \<longrightarrow>
      read_path w path log = (Inl (LibraryError m), log @ [Probe path])) \<and>
   (requests_get w (length log) path = Inr 200 \<and> pd_read_csv w (length log + 1) path = Inr df \<longrightarrow>
      read_path w path log = (Inr df, log @ [Probe path, Fetch path])) \<and>
   (requests_get w (length log) path = Inr 200 \<and> pd_read_csv w (length log + 1) path = Inl m' \<longrightarrow>
      read_path w path log = (Inl (LibraryError m'), log @ [Probe path, Fetch path]))"
  using read_path_assertion [of w path log] by (simp add: read_path_def)

theorem read_path_probe_then_fetch_witness:
  "read_path (static_service (\<lambda>u. if u = probe_path ''PUB_DIM_FACILITY'' then Some facility_rows else None))
      (probe_path ''PUB_DIM_FACILITY'') [] =
     (Inr facility_rows, [Probe (probe_path ''PUB_DIM_FACILITY''), Fetch (probe_path ''PUB_DIM_FACILITY'')]) \<and>
   read_path (static_service (\<lambda>u. None)) (probe_path ''PUB_DIM_FACILITY'') [] =
     (Inl (AssertionError ''URL does not exist.''), [Probe (probe_path ''PUB_DIM_FACILITY'')]) \<and>
   read_path offline (probe_path ''PUB_DIM_FACILITY'') [] =
     (Inl (LibraryError ''ConnectionError''), [Probe (probe_path ''PUB_DIM_FACILITY'')]) \<and>
   read_path unparsable (probe_path ''PUB_DIM_FACILITY'') [] =
     (Inl (LibraryError ''ParserError''),
      [Probe (probe_path ''PUB_DIM_FACILITY''), Fetch (probe_path ''PUB_DIM_FACILITY'')])"
proof -
  let ?p = "probe_path ''PUB_DIM_FACILITY''"
  let ?w = "static_service (\<lambda>u. if u = ?p then Some facility_rows else None)"
  let ?down = "static_service (\<lambda>u. None)"
  have a: "requests_get ?w (length ([] :: request list)) ?p = Inr 200 \<and>
           pd_read_csv ?w (length ([] :: request list) + 1) ?p = Inr facility_rows"
    by (simp add: static_service_def)
  have b: "requests_get ?down (length ([] :: request list)) ?p = Inr 404 \<and> (404::int) \<noteq> 200"
    by (simp add: static_service_def)
  have c: "requests_get offline (length ([] :: request list)) ?p = Inl ''ConnectionError''"
    by (simp add: offline_def)
  have d: "requests_get unparsable (length ([] :: request list)) ?p = Inr 200 \<and>
           pd_read_csv unparsable (length ([] :: request list) + 1) ?p = Inl ''ParserError''"
    by (simp add: unparsable_def)
  have 1: "read_path ?w ?p [] = (Inr facility_rows, [] @ [Probe ?p, Fetch ?p])"
    using read_path_probe_then_fetch [of ?w ?p "[]" 404 "''ConnectionError''" facility_rows "''ParserError''"] a
    by blast
  have 2: "read_path ?down ?p [] = (Inl (AssertionError ''URL does not exist.''), [] @ [Probe ?p])"
    using read_path_probe_then_fetch [of ?down ?p "[]" 404 "''ConnectionError''" facility_rows "''ParserError''"] b
    by blast
  have 3: "read_path offline ?p [] = (Inl (LibraryError ''ConnectionError''), [] @ [Probe ?p])"
    using read_path_probe_then_fetch [of offline ?p "[]" 404 "''ConnectionError''" facility_rows "''ParserError''"] c
    by blast
  have 4: "read_path unparsable ?p [] = (Inl (LibraryError ''ParserError''), [] @ [Probe ?p, Fetch ?p])"
    using read_path_probe_then_fetch [of unparsable ?p "[]" 404 "''ConnectionError''" facility_rows "''ParserError''"] d
    by blast
  show ?thesis unfolding 1 2 3 4 by simp
qed

section \<open>The URLs\<close>

lemma str_int_examples:
  "str_int 0 = ''0''" "str_int 10000 = ''10000''" "str_int 2021 = ''2021''" "str_int (- 5) = ''-5''"
  "str_int 20000 = ''20000''" "str_int 25000 = ''25000''" "str_int 12000 = ''12000''"
  by (simp_all add: str_int_def str_nat.simps digit_char_def)

text \<open>
  C7. The slice fetcher requests \<open>{root}/{table}/{qualifier}/rows/{start}:{end}/csv\<close> and the
  row counter \<open>{root}/{table}/{qualifier}/count/csv\<close>, nothing else, where \<open>{root}\<close> is
  \<open>BASE_URL\<close>; an empty or absent qualifier leaves a double slash.
\<close>

theorem request_urls:
  "(snd (get_table_slice w table start_row end_row (Some qualifier) log) =
      log @ [Probe (BASE_URL @ ''/'' @ table @ ''/'' @ qualifier @ ''/rows/'' @ str_int start_row @ '':'' @ str_int end_row @ ''/csv'')] \<or>
    snd (get_table_slice w table start_row end_row (Some qualifier) log) =
      log @ [Probe (BASE_URL @ ''/'' @ table @ ''/'' @ qualifier @ ''/rows/'' @ str_int start_row @ '':'' @ str_int end_row @ ''/csv''),
             Fetch (BASE_URL @ ''/'' @ table @ ''/'' @ qualifier @ ''/rows/'' @ str_int start_row @ '':'' @ str_int end_row @ ''/csv'')]) \<and>
   (snd (get_row_count w table (Some qualifier) log) =
      log @ [Probe (BASE_URL @ ''/'' @ table @ ''/'' @ qualifier @ ''/count/csv'')] \<or>
    snd (get_row_count w table (Some qualifier) log) =
      log @ [Probe (BASE_URL @ ''/'' @ table @ ''/'' @ qualifier @ ''/count/csv''),
             Fetch (BASE_URL @ ''/'' @ table @ ''/'' @ qualifier @ ''/count/csv'')]) \<and>
   slice_path table (Some []) start_row end_row =
      BASE_URL @ ''/'' @ table @ ''//rows/'' @ str_int start_row @ '':'' @ str_int end_row @ ''/csv'' \<and>
   slice_path table None start_row end_row =
      BASE_URL @ ''/'' @ table @ ''//rows/'' @ str_int start_row @ '':'' @ str_int end_row @ ''/csv'' \<and>
   count_path table (Some []) = BASE_URL @ ''/'' @ table @ ''//count/csv'' \<and>
   count_path table None = BASE_URL @ ''/'' @ table @ ''//count/csv'' \<and>
   BASE_URL = ''https://enviro.epa.gov/enviro/efservice/''"
proof -
  have s: "slice_path table (Some qualifier) start_row end_row =
      BASE_URL @ ''/'' @ table @ ''/'' @ qualifier @ ''/rows/'' @ str_int start_row @ '':'' @ str_int end_row @ ''/csv''"
    by (simp add: slice_path_def or_empty_def)
  have c: "count_path table (Some qualifier) = BASE_URL @ ''/'' @ table @ ''/'' @ qualifier @ ''/count/csv''"
    by (simp add: count_path_def or_empty_def)
  have 1: "snd (get_row_count w table (Some qualifier) log) = snd (read_path w (count_path table (Some qualifier)) log)"
    by (simp add: get_row_count_def split: prod.splits sum.splits list.splits)
  show ?thesis
    using read_path_requests [of w "slice_path table (Some qualifier) start_row end_row" log]
      read_path_requests [of w "count_path table (Some qualifier)" log]
    unfolding 1 get_table_slice_def s c
    by (simp add: slice_path_def count_path_def or_empty_def BASE_URL_def)
qed

theorem request_urls_witness:
  "snd (get_table_slice (static_service (\<lambda>u. None)) ''V_GHG_EMITTER_FACILITIES'' 0 10000
          (Some ''reporting_year/2021'') []) =
     [Probe ''https://enviro.epa.gov/enviro/efservice//V_GHG_EMITTER_FACILITIES/reporting_year/2021/rows/0:10000/csv''] \<and>
   snd (get_row_count (static_service (\<lambda>u. None)) ''V_GHG_EMITTER_FACILITIES''
          (Some ''reporting_year/2021'') []) =
     [Probe ''https://enviro.epa.gov/enviro/efservice//V_GHG_EMITTER_FACILITIES/reporting_year/2021/count/csv''] \<and>
   slice_path ''V_GHG_EMITTER_FACILITIES'' None 0 10000 =
     ''https://enviro.epa.gov/enviro/efservice//V_GHG_EMITTER_FACILITIES//rows/0:10000/csv'' \<and>
   count_path ''V_GHG_EMITTER_FACILITIES'' None =
     ''https://enviro.epa.gov/enviro/efservice//V_GHG_EMITTER_FACILITIES//count/csv''"
proof -
  let ?w = "static_service (\<lambda>u. None)"
  have f: "\<And>p. snd (read_path ?w p []) = [Probe p]"
    by (simp add: read_path_def static_service_def)
  have g: "snd (get_table_slice ?w ''V_GHG_EMITTER_FACILITIES'' 0 10000 (Some ''reporting_year/2021'') []) =
             [Probe (slice_path ''V_GHG_EMITTER_FACILITIES'' (Some ''reporting_year/2021'') 0 10000)]"
    by (simp add: get_table_slice_def f)
  have h: "snd (get_row_count ?w ''V_GHG_EMITTER_FACILITIES'' (Some ''reporting_year/2021'') []) =
             [Probe (count_path ''V_GHG_EMITTER_FACILITIES'' (Some ''reporting_year/2021''))]"
    by (simp add: get_row_count_def read_path_def static_service_def)
  show ?thesis
    using request_urls [of ?w "''V_GHG_EMITTER_FACILITIES''" 0 10000 "''reporting_year/2021''" "[]"] g h
    by (simp add: str_int_examples)
qed

section \<open>The year qualifier\<close>

lemma lower_YEAR: "lower ''YEAR'' = ''year''"
  by code_simp

lemma lower_Reporting_Year: "lower ''Reporting_Year'' = ''reporting_year''"
  by code_simp

lemma lower_REPORTING_YEAR: "lower ''REPORTING_YEAR'' = ''reporting_year''"
  by code_simp

lemma lower_FACILITY_ID: "lower ''FACILITY_ID'' = ''facility_id''"
  by code_simp

lemma lower_TOTALQUERYRESULTS: "lower ''TOTALQUERYRESULTS'' = ''totalqueryresults''"
  by code_simp

lemmas lower_examples =
  lower_YEAR lower_Reporting_Year lower_REPORTING_YEAR lower_FACILITY_ID lower_TOTALQUERYRESULTS

text \<open>
  C4. With a target year \<open>y\<close>, when the probe of rows \<open>0:1\<close> is read and a column
  lowercases to \<open>reporting_year\<close> the qualifier is \<open>reporting_year/y\<close>; when none does but
  one lowercases to \<open>year\<close> it is \<open>year/y\<close>; when neither is there the resolver raises its
  value error. Without a target year the qualifier is empty and no request is made.
\<close>

theorem year_qualifier:
  "(read_path w (probe_path table) log = (Inr df, log') \<and>
      ''reporting_year'' \<in> set (map lower (columns df)) \<longrightarrow>
      get_reporting_year_query w table (Some y) log = (Inr (''reporting_year/'' @ str_int y), log')) \<and>
   (read_path w (probe_path table) log = (Inr df, log') \<and>
      ''reporting_year'' \<notin> set (map lower (columns df)) \<and>
      ''year'' \<in> set (map lower (columns df)) \<longrightarrow>
      get_reporting_year_query w table (Some y) log = (Inr (''year/'' @ str_int y), log')) \<and>
   (read_path w (probe_path table) log = (Inr df, log') \<and>
      ''reporting_year'' \<notin> set (map lower (columns df)) \<and>
      ''year'' \<notin> set (map lower (columns df)) \<longrightarrow>
      get_reporting_year_query w table (Some y) log =
        (Inl (ValueError ''Column name for reporting year not recognized.''), log')) \<and>
   get_reporting_year_query w table None log = (Inr [], log) \<and>
   probe_path table = BASE_URL @ ''/'' @ table @ ''/rows/0:1/csv''"
  by (simp add: get_reporting_year_query_def probe_path_def)

theorem year_qualifier_witness:
  "get_reporting_year_query (static_service (\<lambda>u. Some facility_rows)) ''PUB_DIM_FACILITY'' (Some 2021) [] =
     (Inr ''reporting_year/2021'',
      [Probe (probe_path ''PUB_DIM_FACILITY''), Fetch (probe_path ''PUB_DIM_FACILITY'')]) \<and>
   get_reporting_year_query (static_service (\<lambda>u. Some year_only)) ''PUB_DIM_FACILITY'' (Some 2021) [] =
     (Inr ''year/2021'',
      [Probe (probe_path ''PUB_DIM_FACILITY''), Fetch (probe_path ''PUB_DIM_FACILITY'')]) \<and>
   get_reporting_year_query (static_service (\<lambda>u. Some count_response)) ''PUB_DIM_FACILITY'' (Some 2021) [] =
     (Inl (ValueError ''Column name for reporting year not recognized.''),
      [Probe (probe_path ''PUB_DIM_FACILITY''), Fetch (probe_path ''PUB_DIM_FACILITY'')]) \<and>
   get_reporting_year_query (static_service (\<lambda>u. None)) ''PUB_DIM_FACILITY'' None [] = (Inr [], [])"
proof -
  let ?p = "probe_path ''PUB_DIM_FACILITY''"
  let ?log = "[Probe ?p, Fetch ?p]"
  have r: "\<And>df. read_path (static_service (\<lambda>u. Some df)) ?p [] = (Inr df, ?log)"
    using read_path_static(1) [of "\<lambda>u. Some df" ?p _ "[]" for df] by simp
  have a: "''reporting_year'' \<in> set (map lower (columns facility_rows))"
    by (simp add: facility_rows_def lower_examples)
  have b: "''reporting_year'' \<notin> set (map lower (columns year_only)) \<and>
           ''year'' \<in> set (map lower (columns year_only))"
    by (simp add: year_only_def lower_examples)
  have c: "''reporting_year'' \<notin> set (map lower (columns count_response)) \<and>
           ''year'' \<notin> set (map lower (columns count_response))"
    by (simp add: count_response_def lower_examples)
  have 1: "get_reporting_year_query (static_service (\<lambda>u. Some facility_rows)) ''PUB_DIM_FACILITY'' (Some 2021) [] =
             (Inr (''reporting_year/'' @ str_int 2021), ?log)"
    using year_qualifier [of "static_service (\<lambda>u. Some facility_rows)" "''PUB_DIM_FACILITY''" "[]" facility_rows ?log 2021]
      r [of facility_rows] a by blast
  have 2: "get_reporting_year_query (static_service (\<lambda>u. Some year_only)) ''PUB_DIM_FACILITY'' (Some 2021) [] =
             (Inr (''year/'' @ str_int 2021), ?log)"
    using year_qualifier [of "static_service (\<lambda>u. Some year_only)" "''PUB_DIM_FACILITY''" "[]" year_only ?log 2021]
      r [of year_only] b by blast
  have 3: "get_reporting_year_query (static_service (\<lambda>u. Some count_response)) ''PUB_DIM_FACILITY'' (Some 2021) [] =
             (Inl (ValueError ''Column name for reporting year not recognized.''), ?log)"
    using year_qualifier [of "static_service (\<lambda>u. Some count_response)" "''PUB_DIM_FACILITY''" "[]" count_response ?log 2021]
      r [of count_response] c by blast
  have 4: "get_reporting_year_query (static_service (\<lambda>u. None)) ''PUB_DIM_FACILITY'' None [] = (Inr [], [])"
    using year_qualifier [of "static_service (\<lambda>u. None)" "''PUB_DIM_FACILITY''" "[]" count_response ?log 2021]
    by blast
  show ?thesis
    unfolding 1 2 3 4 by (simp add: str_int_examples)
qed

text \<open>
  C10. When the probed schema has both a column that lowercases to \<open>reporting_year\<close> and one
  that lowercases to \<open>year\<close>, the qualifier is \<open>reporting_year/y\<close>: the first test wins.
\<close>

theorem reporting_year_precedence:
  "read_path w (probe_path table) log = (Inr df, log') \<Longrightarrow>
   ''reporting_year'' \<in> set (map lower (columns df)) \<Longrightarrow>
   ''year'' \<in> set (map lower (columns df)) \<Longrightarrow>
   get_reporting_year_query w table (Some y) log = (Inr (''reporting_year/'' @ str_int y), log')"
  by (simp add: get_reporting_year_query_def)

theorem reporting_year_precedence_witness:
  "get_reporting_year_query (static_service (\<lambda>u. Some year_first)) ''C_FUEL_LEVEL_INFORMATION'' (Some 2021) [] =
     (Inr ''reporting_year/2021'',
      [Probe (probe_path ''C_FUEL_LEVEL_INFORMATION''), Fetch (probe_path ''C_FUEL_LEVEL_INFORMATION'')])"
proof -
  let ?p = "probe_path ''C_FUEL_LEVEL_INFORMATION''"
  have r: "read_path (static_service (\<lambda>u. Some year_first)) ?p [] = (Inr year_first, [Probe ?p, Fetch ?p])"
    using read_path_static(1) [of "\<lambda>u. Some year_first" ?p year_first "[]"] by simp
  have a: "''reporting_year'' \<in> set (map lower (columns year_first))"
    by (simp add: year_first_def lower_examples)
  have b: "''year'' \<in> set (map lower (columns year_first))"
    by (simp add: year_first_def lower_examples)
  show ?thesis
    using reporting_year_precedence [OF r a b, of 2021] by (simp add: str_int_examples)
qed

section \<open>The row count\<close>

text \<open>
  C3, as stated, fails: a response whose column is labelled \<open>count of total results\<close> and
  holds 42 is not recognized; the label the code tests is \<open>TOTALQUERYRESULTS\<close>.
\<close>

theorem count_column_name_counterexample:
  "get_row_count (static_service (\<lambda>u. Some spec_count_response)) ''PUB_DIM_FACILITY'' None [] =
     (Inl (ValueError ''Count file format not recognized.''),
      [Probe (count_path ''PUB_DIM_FACILITY'' None), Fetch (count_path ''PUB_DIM_FACILITY'' None)])"
  by (simp add: get_row_count_def read_path_static(1) spec_count_response_def df_empty_def)

text \<open>
  C3, amended. When the response has a column labelled \<open>TOTALQUERYRESULTS\<close> with at least
  one row, the count is \<open>int\<close> of its first value (42 gives 42); when it lacks the column
  and has no rows, the count is \<open>int\<close> of its first header (the header \<open>0\<close> gives 0); when
  it lacks the column and has rows, the counter raises its value error.
\<close>

theorem row_count_shapes:
  "(read_path w (count_path table custom_query) log = (Inr df, log') \<and>
      ''TOTALQUERYRESULTS'' \<in> set (columns df) \<and>
      column_values df ''TOTALQUERYRESULTS'' = v # vs \<longrightarrow>
      get_row_count w table custom_query log = (py_int v, log')) \<and>
   py_int (IntCell n) = Inr n \<and>
   (read_path w (count_path table custom_query) log = (Inr df, log') \<and>
      ''TOTALQUERYRESULTS'' \<notin> set (columns df) \<and>
      columns df = c # cs \<and> records df = [] \<longrightarrow>
      get_row_count w table custom_query log = (int_of_str c, log')) \<and>
   (read_path w (count_path table custom_query) log = (Inr df, log') \<and>
      ''TOTALQUERYRESULTS'' \<notin> set (columns df) \<and> \<not> df_empty df \<longrightarrow>
      get_row_count w table custom_query log =
        (Inl (ValueError ''Count file format not recognized.''), log'))"
  by (auto simp add: get_row_count_def df_empty_def)

theorem row_count_shapes_witness:
  "get_row_count (static_service (\<lambda>u. Some code_count_response)) ''PUB_DIM_FACILITY'' None [] =
     (Inr 42, [Probe (count_path ''PUB_DIM_FACILITY'' None), Fetch (count_path ''PUB_DIM_FACILITY'' None)]) \<and>
   get_row_count (static_service (\<lambda>u. Some bare_count_response)) ''PUB_DIM_FACILITY'' None [] =
     (Inr 0, [Probe (count_path ''PUB_DIM_FACILITY'' None), Fetch (count_path ''PUB_DIM_FACILITY'' None)]) \<and>
   get_row_count (static_service (\<lambda>u. Some facility_rows)) ''PUB_DIM_FACILITY'' None [] =
     (Inl (ValueError ''Count file format not recognized.''),
      [Probe (count_path ''PUB_DIM_FACILITY'' None), Fetch (count_path ''PUB_DIM_FACILITY'' None)])"
proof -
  let ?p = "count_path ''PUB_DIM_FACILITY'' None"
  let ?log = "[Probe ?p, Fetch ?p]"
  have r: "read_path (static_service (\<lambda>u. Some df)) ?p [] = (Inr df, ?log)" for df
    using read_path_static(1) [of "\<lambda>u. Some df" ?p df "[]"] by simp
  have a: "''TOTALQUERYRESULTS'' \<in> set (columns code_count_response) \<and>
           column_values code_count_response ''TOTALQUERYRESULTS'' = IntCell 42 # []"
    by (simp add: code_count_response_def column_values_def cell_at_def)
  have b: "''TOTALQUERYRESULTS'' \<notin> set (columns bare_count_response) \<and>
           columns bare_count_response = ''0'' # [] \<and> records bare_count_response = []"
    by (simp add: bare_count_response_def)
  have z: "int_of_str ''0'' = Inr 0"
    by (simp add: int_of_str_def strip_def is_space_def digit_val_def)
  have c: "''TOTALQUERYRESULTS'' \<notin> set (columns facility_rows) \<and> \<not> df_empty facility_rows"
    by (simp add: facility_rows_def df_empty_def)
  have 1: "get_row_count (static_service (\<lambda>u. Some code_count_response)) ''PUB_DIM_FACILITY'' None [] =
             (py_int (IntCell 42), ?log)"
    using row_count_shapes [of "static_service (\<lambda>u. Some code_count_response)" "''PUB_DIM_FACILITY''"
        None "[]" code_count_response ?log "IntCell 42" "[]" 42 "''0''" "[]"]
      r [of code_count_response] a by blast
  have 2: "get_row_count (static_service (\<lambda>u. Some bare_count_response)) ''PUB_DIM_FACILITY'' None [] =
             (int_of_str ''0'', ?log)"
    using row_count_shapes [of "static_service (\<lambda>u. Some bare_count_response)" "''PUB_DIM_FACILITY''"
        None "[]" bare_count_response ?log "IntCell 42" "[]" 42 "''0''" "[]"]
      r [of bare_count_response] b by blast
  have 3: "get_row_count (static_service (\<lambda>u. Some facility_rows)) ''PUB_DIM_FACILITY'' None [] =
             (Inl (ValueError ''Count file format not recognized.''), ?log)"
    using row_count_shapes [of "static_service (\<lambda>u. Some facility_rows)" "''PUB_DIM_FACILITY''"
        None "[]" facility_rows ?log "IntCell 42" "[]" 42 "''0''" "[]"]
      r [of facility_rows] c by blast
  show ?thesis unfolding 1 2 3 by (simp add: z)
qed

section \<open>The merge\<close>

lemma first_seen_cong: "set s1 = set s2 \<Longrightarrow> first_seen s1 xs = first_seen s2 xs"
proof (induction xs arbitrary: s1 s2)
  case Nil
  show ?case by simp
next
  case (Cons x xs)
  have "first_seen (x # s1) xs = first_seen (x # s2) xs"
    by (rule Cons.IH) (simp add: Cons.prems)
  moreover have "first_seen s1 xs = first_seen s2 xs"
    by (rule Cons.IH) (rule Cons.prems)
  ultimately show ?case using Cons.prems by simp
qed

lemma first_seen_distinct:
  "distinct xs \<Longrightarrow> first_seen seen xs = filter (\<lambda>x. x \<notin> set seen) xs"
proof (induction xs arbitrary: seen)
  case Nil
  show ?case by simp
next
  case (Cons x xs)
  have d: "distinct xs" and nx: "x \<notin> set xs" using Cons.prems by simp_all
  have "filter (\<lambda>y. y \<notin> set (x # seen)) xs = filter (\<lambda>y. y \<notin> set seen) xs"
    using nx by (intro filter_cong) auto
  then show ?case using Cons.IH [OF d] by simp
qed

lemma first_seen_append:
  "first_seen seen (xs @ ys) = first_seen seen xs @ first_seen (xs @ seen) ys"
proof (induction xs arbitrary: seen)
  case Nil
  show ?case by simp
next
  case (Cons x xs)
  have a: "first_seen (xs @ x # seen) ys = first_seen (x # xs @ seen) ys"
    by (rule first_seen_cong) auto
  have b: "x \<in> set seen \<Longrightarrow> first_seen (xs @ seen) ys = first_seen (x # xs @ seen) ys"
    by (rule first_seen_cong) auto
  show ?case using Cons.IH [of seen] Cons.IH [of "x # seen"] a b by simp
qed

lemma index_of_nth: "distinct xs \<Longrightarrow> i < length xs \<Longrightarrow> index_of (xs ! i) xs = Some i"
proof (induction xs arbitrary: i)
  case Nil
  then show ?case by simp
next
  case (Cons x xs)
  show ?case
  proof (cases i)
    case 0
    then show ?thesis by simp
  next
    case (Suc j)
    then have "xs ! j \<in> set xs" using Cons.prems by simp
    then have "xs ! j \<noteq> x" using Cons.prems by auto
    then show ?thesis using Suc Cons by auto
  qed
qed

lemma count_list_distinct: "distinct xs \<Longrightarrow> x \<in> set xs \<Longrightarrow> count_list xs x = 1"
  by (induction xs) auto

lemma reindex_same:
  assumes "wf_df df"
  shows "reindex (columns df) df = records df"
proof -
  have "map (\<lambda>c. case index_of c (columns df) of None \<Rightarrow> NaN | Some i \<Rightarrow> cell_at r i) (columns df) = r"
    if r: "length r = length (columns df)" for r
  proof (rule nth_equalityI)
    show "length (map (\<lambda>c. case index_of c (columns df) of None \<Rightarrow> NaN | Some i \<Rightarrow> cell_at r i) (columns df)) = length r"
      using r by simp
  next
    fix i
    assume "i < length (map (\<lambda>c. case index_of c (columns df) of None \<Rightarrow> NaN | Some i \<Rightarrow> cell_at r i) (columns df))"
    then have i: "i < length (columns df)" by simp
    then have "index_of (columns df ! i) (columns df) = Some i"
      using assms index_of_nth [of "columns df" i] by (simp add: wf_df_def)
    then show "map (\<lambda>c. case index_of c (columns df) of None \<Rightarrow> NaN | Some i \<Rightarrow> cell_at r i) (columns df) ! i = r ! i"
      using i r by (simp add: cell_at_def)
  qed
  then have "map (\<lambda>r. map (\<lambda>c. case index_of c (columns df) of None \<Rightarrow> NaN | Some i \<Rightarrow> cell_at r i) (columns df)) (records df)
      = map (\<lambda>r. r) (records df)"
    using assms by (intro map_cong refl) (simp add: wf_df_def list_all_iff)
  then show ?thesis by (simp add: reindex_def)
qed

lemma pd_concat_same_schema:
  assumes "wf_df a" and "wf_df b" and "columns a = columns b"
  shows "pd_concat [a, b] = Inr \<lparr>columns = columns a, records = records a @ records b\<rparr>"
proof -
  have d: "distinct (columns a)" using assms(1) by (simp add: wf_df_def)
  have "first_seen [] (columns a @ columns a) = columns a"
    unfolding first_seen_append using d by (simp add: first_seen_distinct)
  then have c: "first_seen [] (concat (map columns [a, b])) = columns a"
    using assms(3) by simp
  have "reindex (columns a) b = records b"
    using reindex_same [OF assms(2)] assms(3) by simp
  then show ?thesis
    using reindex_same [OF assms(1)] c by (simp add: pd_concat_def Let_def del: first_seen.simps)
qed

lemma first_seen_set: "set (first_seen seen xs) = set xs - set seen"
  by (induction xs arbitrary: seen) auto

lemma first_seen_is_distinct: "distinct (first_seen seen xs)"
  by (induction xs arbitrary: seen) (auto simp add: first_seen_set)

lemma first_seen_positions:
  "first_seen seen xs =
     map ((!) xs) (filter (\<lambda>j. xs ! j \<notin> set seen \<union> set (take j xs)) [0..<length xs])"
proof (induction xs arbitrary: seen)
  case Nil
  show ?case by simp
next
  case (Cons x xs)
  have u: "[0..<length (x # xs)] = 0 # map Suc [0..<length xs]"
    by (simp add: upt_conv_Cons map_Suc_upt del: upt_Suc)
  have t: "map ((!) (x # xs))
             (filter (\<lambda>j. (x # xs) ! j \<notin> set seen \<union> set (take j (x # xs))) (map Suc [0..<length xs])) =
           map ((!) xs) (filter (\<lambda>j. xs ! j \<notin> set (x # seen) \<union> set (take j xs)) [0..<length xs])"
    by (simp add: filter_map comp_def conj_ac)
  show ?case
  proof (cases "x \<in> set seen")
    case True
    then have "set (x # seen) = set seen" by auto
    then have "first_seen seen xs =
        map ((!) xs) (filter (\<lambda>j. xs ! j \<notin> set (x # seen) \<union> set (take j xs)) [0..<length xs])"
      using Cons.IH [of seen] by simp
    then show ?thesis unfolding u using True t by simp
  next
    case False
    then show ?thesis unfolding u using Cons.IH [of "x # seen"] t by simp
  qed
qed

text \<open>
  C5, as stated, fails: the slices below share exactly one row, but the first slice holds
  another row twice, and the merge keeps that row once, so not every other row that
  arrived is preserved.
\<close>

theorem merge_repeated_row_counterexample:
  "set (records repeated_facility_rows) \<inter> set (records next_facility_rows) =
     {[IntCell 1000002, IntCell 2021]} \<and>
   count_list (records repeated_facility_rows @ records next_facility_rows)
     [IntCell 1000001, IntCell 2021] = 2 \<and>
   merge_slices [repeated_facility_rows, next_facility_rows] =
     Inr \<lparr>columns = [''FACILITY_ID'', ''REPORTING_YEAR''],
          records = [[IntCell 1000001, IntCell 2021], [IntCell 1000002, IntCell 2021],
                     [IntCell 1000003, IntCell 2021]]\<rparr>"
proof -
  have "set (records repeated_facility_rows) \<inter> set (records next_facility_rows) =
     {[IntCell 1000002, IntCell 2021]}"
    by (auto simp add: repeated_facility_rows_def next_facility_rows_def)
  moreover have "count_list (records repeated_facility_rows @ records next_facility_rows)
     [IntCell 1000001, IntCell 2021] = 2"
    by (simp add: repeated_facility_rows_def next_facility_rows_def)
  moreover have "merge_slices [repeated_facility_rows, next_facility_rows] =
     Inr \<lparr>columns = [''FACILITY_ID'', ''REPORTING_YEAR''],
          records = [[IntCell 1000001, IntCell 2021], [IntCell 1000002, IntCell 2021],
                     [IntCell 1000003, IntCell 2021]]\<rparr>"
    by (simp add: merge_slices_def pd_concat_def drop_duplicates_def reindex_def cell_at_def
        repeated_facility_rows_def next_facility_rows_def Let_def)
  ultimately show ?thesis by blast
qed

text \<open>
  C5, amended. For two slices of one schema the merge holds every row that arrived
  exactly once, the shared row included, at the place of its first arrival: the rows kept
  are those at the positions of the concatenation where the row has not occurred before.
  When neither slice repeats a row and they share exactly the row \<open>r\<close>, the merge is the
  first slice followed by the second without \<open>r\<close>.
\<close>

theorem merge_keeps_first_arrivals:
  assumes "wf_df a" and "wf_df b" and "columns a = columns b"
  shows "\<exists>m. merge_slices [a, b] = Inr m \<and> columns m = columns a \<and>
           records m =
             map ((!) (records a @ records b))
               (filter (\<lambda>j. (records a @ records b) ! j \<notin> set (take j (records a @ records b)))
                  [0..<length (records a @ records b)]) \<and>
           distinct (records m) \<and>
           set (records m) = set (records a) \<union> set (records b) \<and>
           (\<forall>x \<in> set (records a) \<union> set (records b). count_list (records m) x = 1) \<and>
           (distinct (records a) \<and> distinct (records b) \<and>
              set (records a) \<inter> set (records b) = {r} \<longrightarrow>
              records m = records a @ filter (\<lambda>x. x \<noteq> r) (records b))"
proof -
  let ?xs = "records a @ records b"
  let ?m = "\<lparr>columns = columns a, records = first_seen [] ?xs\<rparr>"
  have m: "merge_slices [a, b] = Inr ?m"
    using pd_concat_same_schema [OF assms] by (simp add: merge_slices_def drop_duplicates_def)
  have p: "records ?m =
             map ((!) ?xs) (filter (\<lambda>j. ?xs ! j \<notin> set (take j ?xs)) [0..<length ?xs])"
    using first_seen_positions [of "[]" ?xs] by simp
  have d: "distinct (records ?m)" by (simp add: first_seen_is_distinct)
  have s: "set (records ?m) = set (records a) \<union> set (records b)" by (simp add: first_seen_set)
  have c: "\<forall>x \<in> set (records a) \<union> set (records b). count_list (records ?m) x = 1"
  proof
    fix x
    assume "x \<in> set (records a) \<union> set (records b)"
    then have "x \<in> set (records ?m)" using s by simp
    then show "count_list (records ?m) x = 1" using d by (intro count_list_distinct)
  qed
  have f: "records ?m = records a @ filter (\<lambda>x. x \<noteq> r) (records b)"
    if h: "distinct (records a) \<and> distinct (records b) \<and> set (records a) \<inter> set (records b) = {r}"
  proof -
    have "filter (\<lambda>x. x \<notin> set (records a)) (records b) = filter (\<lambda>x. x \<noteq> r) (records b)"
      using h by (intro filter_cong) auto
    then have "first_seen [] ?xs = records a @ filter (\<lambda>x. x \<noteq> r) (records b)"
      unfolding first_seen_append using h by (simp add: first_seen_distinct)
    then show ?thesis by simp
  qed
  have g: "distinct (records a) \<and> distinct (records b) \<and>
              set (records a) \<inter> set (records b) = {r} \<longrightarrow>
              records ?m = records a @ filter (\<lambda>x. x \<noteq> r) (records b)"
    using f by (rule impI)
  have k: "columns ?m = columns a" by simp
  show ?thesis
    by (rule exI [of _ ?m]) (intro conjI m k p d s c g)
qed

theorem merge_keeps_first_arrivals_witness:
  "merge_slices [facility_rows, next_facility_rows] =
     Inr \<lparr>columns = [''FACILITY_ID'', ''REPORTING_YEAR''],
          records = [[IntCell 1000001, IntCell 2021], [IntCell 1000002, IntCell 2021],
                     [IntCell 1000003, IntCell 2021]]\<rparr>"
proof -
  have 1: "wf_df facility_rows" by (simp add: wf_df_def facility_rows_def)
  have 2: "wf_df next_facility_rows" by (simp add: wf_df_def next_facility_rows_def)
  have 3: "columns facility_rows = columns next_facility_rows"
    by (simp add: facility_rows_def next_facility_rows_def)
  have 4: "distinct (records facility_rows) \<and> distinct (records next_facility_rows) \<and>
           set (records facility_rows) \<inter> set (records next_facility_rows) = {[IntCell 1000002, IntCell 2021]}"
    by (auto simp add: facility_rows_def next_facility_rows_def)
  let ?xs = "records facility_rows @ records next_facility_rows"
  let ?r = "[IntCell 1000002, IntCell 2021]"
  from merge_keeps_first_arrivals [OF 1 2 3, of ?r]
  obtain m where mm: "merge_slices [facility_rows, next_facility_rows] = Inr m \<and>
      columns m = columns facility_rows \<and>
      records m = map ((!) ?xs) (filter (\<lambda>j. ?xs ! j \<notin> set (take j ?xs)) [0..<length ?xs]) \<and>
      distinct (records m) \<and>
      set (records m) = set (records facility_rows) \<union> set (records next_facility_rows) \<and>
      (\<forall>x \<in> set (records facility_rows) \<union> set (records next_facility_rows).
          count_list (records m) x = 1) \<and>
      (distinct (records facility_rows) \<and> distinct (records next_facility_rows) \<and>
         set (records facility_rows) \<inter> set (records next_facility_rows) = {?r} \<longrightarrow>
         records m = records facility_rows @ filter (\<lambda>x. x \<noteq> ?r) (records next_facility_rows))" ..
  have a: "merge_slices [facility_rows, next_facility_rows] = Inr m" using mm by (rule conjunct1)
  have b: "columns m = columns facility_rows" using mm by (elim conjE)
  have i: "distinct (records facility_rows) \<and> distinct (records next_facility_rows) \<and>
         set (records facility_rows) \<inter> set (records next_facility_rows) = {?r} \<longrightarrow>
         records m = records facility_rows @ filter (\<lambda>x. x \<noteq> ?r) (records next_facility_rows)"
    using mm by (elim conjE)
  have c: "records m = records facility_rows @ filter (\<lambda>x. x \<noteq> ?r) (records next_facility_rows)"
    using i 4 by (rule mp)
  have "m = \<lparr>columns = [''FACILITY_ID'', ''REPORTING_YEAR''],
          records = [[IntCell 1000001, IntCell 2021], [IntCell 1000002, IntCell 2021],
                     [IntCell 1000003, IntCell 2021]]\<rparr>"
    using b c by (cases m) (simp add: facility_rows_def next_facility_rows_def)
  then show ?thesis using a by simp
qed

section \<open>The sentinel for no data\<close>

lemma length_row_range_gt1: "1 < length (row_range_of max_row) \<longleftrightarrow> 0 < max_row"
  by (simp add: length_row_range_of pos_imp_zdiv_neg_iff)

lemma get_data_steps:
  "get_reporting_year_query w table reporting_year log = (Inr q, log1) \<Longrightarrow>
   get_max_row w table q rows_limit log1 = (Inr max_row, log2) \<Longrightarrow>
   get_data w table reporting_year rows_limit log = get_chunks w table q max_row log2"
  by (simp add: get_data_def)

lemma get_chunks_nonpositive: "max_row \<le> 0 \<Longrightarrow> get_chunks w table q max_row log = (Inr None, log)"
  using length_row_range_gt1 [of max_row] by (simp add: get_chunks_def Let_def)

lemma int_of_str_0: "int_of_str ''0'' = Inr 0"
  by (simp add: int_of_str_def strip_def is_space_def digit_val_def)

lemma row_range_of_12000: "row_range_of 12000 = [0, 10000, 12000]"
  by code_simp

lemma row_range_of_5: "row_range_of 5 = [0, 5]"
  by code_simp

lemma fetch_slices_length:
  "fetch_slices w t q rr ns acc log = (Inr slices, log') \<Longrightarrow> length slices = length acc + length ns"
proof (induction ns arbitrary: acc log)
  case Nil
  then show ?case by simp
next
  case (Cons n ns)
  then show ?case by (simp split: prod.splits sum.splits)
qed

lemma get_chunks_zero: "get_chunks w table q 0 log = (Inr None, log)"
  by (rule get_chunks_nonpositive) simp

lemma get_chunks_slices_ok:
  assumes "0 < max_row"
    and "fetch_slices w table q (row_range_of max_row) [0..<length (row_range_of max_row) - 1] [] log
           = (Inr slices, log')"
  shows "\<exists>df. merge_slices slices = Inr df \<and> get_chunks w table q max_row log = (Inr (Some df), log')"
proof -
  have l: "1 < length (row_range_of max_row)" using assms(1) length_row_range_gt1 by blast
  have "length slices = length [0..<length (row_range_of max_row) - 1]"
    using fetch_slices_length [OF assms(2)] by simp
  then have "slices \<noteq> []" using l by auto
  then obtain df where m: "merge_slices slices = Inr df" using merge_slices_nonempty by blast
  have "get_chunks w table q max_row log = (Inr (Some df), log')"
    using l assms(2) m by (simp add: get_chunks_def Let_def)
  then show ?thesis using m by blast
qed

lemma get_chunks_slices_fail:
  assumes "0 < max_row"
    and "fetch_slices w table q (row_range_of max_row) [0..<length (row_range_of max_row) - 1] [] log
           = (Inl e, log')"
  shows "get_chunks w table q max_row log = (Inl e, log')"
proof -
  have l: "1 < length (row_range_of max_row)" using assms(1) length_row_range_gt1 by blast
  show ?thesis using l assms(2) by (simp add: get_chunks_def Let_def)
qed

lemma facility_paths:
  "count_path ''PUB_DIM_FACILITY'' (Some []) \<noteq> slice_path ''PUB_DIM_FACILITY'' (Some []) 0 10000"
  "count_path ''PUB_DIM_FACILITY'' (Some []) \<noteq> slice_path ''PUB_DIM_FACILITY'' (Some []) 10000 12000"
  "slice_path ''PUB_DIM_FACILITY'' (Some []) 10000 12000 \<noteq> slice_path ''PUB_DIM_FACILITY'' (Some []) 0 10000"
  "slice_path ''PUB_DIM_FACILITY'' (Some []) 0 5 \<noteq> slice_path ''PUB_DIM_FACILITY'' (Some []) 0 10000"
  "slice_path ''PUB_DIM_FACILITY'' (Some []) 0 5 \<noteq> slice_path ''PUB_DIM_FACILITY'' (Some []) 10000 12000"
  "slice_path ''PUB_DIM_FACILITY'' (Some []) 0 5 \<noteq> count_path ''PUB_DIM_FACILITY'' (Some [])"
  by (simp_all add: count_path_def slice_path_def or_empty_def str_int_examples str_int_def
      str_nat.simps digit_char_def)

lemma merge_facility_slices:
  "merge_slices [facility_rows, next_facility_rows] =
     Inr \<lparr>columns = [''FACILITY_ID'', ''REPORTING_YEAR''],
          records = [[IntCell 1000001, IntCell 2021], [IntCell 1000002, IntCell 2021],
                     [IntCell 1000003, IntCell 2021]]\<rparr>"
  by (simp add: merge_slices_def pd_concat_def drop_duplicates_def reindex_def cell_at_def
      facility_rows_def next_facility_rows_def Let_def)

lemma fetch_facility_slices:
  assumes "read_path w (slice_path ''PUB_DIM_FACILITY'' (Some []) 0 10000) log =
             (Inr facility_rows, log @ [Probe (slice_path ''PUB_DIM_FACILITY'' (Some []) 0 10000),
                                        Fetch (slice_path ''PUB_DIM_FACILITY'' (Some []) 0 10000)])"
    and "read_path w (slice_path ''PUB_DIM_FACILITY'' (Some []) 10000 12000)
             (log @ [Probe (slice_path ''PUB_DIM_FACILITY'' (Some []) 0 10000),
                     Fetch (slice_path ''PUB_DIM_FACILITY'' (Some []) 0 10000)]) =
             (Inr next_facility_rows,
              log @ [Probe (slice_path ''PUB_DIM_FACILITY'' (Some []) 0 10000),
                     Fetch (slice_path ''PUB_DIM_FACILITY'' (Some []) 0 10000),
                     Probe (slice_path ''PUB_DIM_FACILITY'' (Some []) 10000 12000),
                     Fetch (slice_path ''PUB_DIM_FACILITY'' (Some []) 10000 12000)])"
  shows "fetch_slices w ''PUB_DIM_FACILITY'' [] (row_range_of 12000)
           [0..<length (row_range_of 12000) - 1] [] log =
         (Inr [facility_rows, next_facility_rows],
          log @ [Probe (slice_path ''PUB_DIM_FACILITY'' (Some []) 0 10000),
                 Fetch (slice_path ''PUB_DIM_FACILITY'' (Some []) 0 10000),
                 Probe (slice_path ''PUB_DIM_FACILITY'' (Some []) 10000 12000),
                 Fetch (slice_path ''PUB_DIM_FACILITY'' (Some []) 10000 12000)])"
proof -
  have ns: "[0..<length (row_range_of 12000) - 1] = [0, Suc 0]"
    by (simp add: row_range_of_12000 upt_rec)
  show ?thesis
    unfolding ns using assms by (simp add: row_range_of_12000 get_table_slice_def)
qed

text \<open>
  C2, as stated, fails in its second part: a nonzero total does not always give a table.
  With a limit of 12,000 rows and a service that answers no URL, the first slice fetch
  fails and \<open>get_data\<close> fails with it.
\<close>

theorem slice_fetch_fails_counterexample:
  "get_data (static_service (\<lambda>u. None)) ''PUB_DIM_FACILITY'' None (Some 12000) [] =
     (Inl (AssertionError ''URL does not exist.''),
      [Probe (slice_path ''PUB_DIM_FACILITY'' (Some []) 0 10000)])"
proof -
  let ?down = "static_service (\<lambda>u. None)"
  let ?t = "''PUB_DIM_FACILITY''"
  let ?u1 = "slice_path ?t (Some []) 0 10000"
  have ns: "[0..<length (row_range_of 12000) - 1] = [0, Suc 0]"
    by (simp add: row_range_of_12000 upt_rec)
  have g: "fetch_slices ?down ?t [] (row_range_of 12000) [0..<length (row_range_of 12000) - 1] [] [] =
             (Inl (AssertionError ''URL does not exist.''), [Probe ?u1])"
    unfolding ns by (simp add: row_range_of_12000 get_table_slice_def read_path_static(2))
  have "get_chunks ?down ?t [] 12000 [] = (Inl (AssertionError ''URL does not exist.''), [Probe ?u1])"
    by (rule get_chunks_slices_fail [OF _ g]) simp
  then show ?thesis
    by (simp add: get_data_def get_reporting_year_query_def get_max_row_def)
qed

text \<open>
  C2, amended. A row count is not negative. Once the qualifier and the total are known: when
  the total is zero \<open>get_data\<close> returns \<open>None\<close>, not a table, and the requests made are those
  of the first two steps, so no slice is fetched. When the total is not zero and the slice
  fetches succeed, \<open>get_data\<close> returns a table, the merge of the slices; when a slice fetch
  fails, its error is the outcome.
\<close>

theorem no_data_sentinel:
  "(get_reporting_year_query w table reporting_year log = (Inr q, log1) \<and>
      get_max_row w table q rows_limit log1 = (Inr 0, log2) \<longrightarrow>
      get_data w table reporting_year rows_limit log = (Inr None, log2)) \<and>
   (get_reporting_year_query w table reporting_year log = (Inr q, log1) \<and>
      get_max_row w table q rows_limit log1 = (Inr max_row, log2) \<and>
      0 \<le> max_row \<and> max_row \<noteq> 0 \<and>
      fetch_slices w table q (row_range_of max_row) [0..<length (row_range_of max_row) - 1] [] log2
        = (Inr slices, log3) \<longrightarrow>
      (\<exists>df. merge_slices slices = Inr df \<and>
            get_data w table reporting_year rows_limit log = (Inr (Some df), log3))) \<and>
   (get_reporting_year_query w table reporting_year log = (Inr q, log1) \<and>
      get_max_row w table q rows_limit log1 = (Inr max_row, log2) \<and>
      0 \<le> max_row \<and> max_row \<noteq> 0 \<and>
      fetch_slices w table q (row_range_of max_row) [0..<length (row_range_of max_row) - 1] [] log2
        = (Inl e, log3) \<longrightarrow>
      get_data w table reporting_year rows_limit log = (Inl e, log3))"
proof (intro conjI impI)
  assume "get_reporting_year_query w table reporting_year log = (Inr q, log1) \<and>
      get_max_row w table q rows_limit log1 = (Inr 0, log2)"
  then show "get_data w table reporting_year rows_limit log = (Inr None, log2)"
    using get_data_steps [of w table reporting_year log q log1 rows_limit 0 log2]
    by (simp add: get_chunks_zero)
next
  assume a: "get_reporting_year_query w table reporting_year log = (Inr q, log1) \<and>
      get_max_row w table q rows_limit log1 = (Inr max_row, log2) \<and>
      0 \<le> max_row \<and> max_row \<noteq> 0 \<and>
      fetch_slices w table q (row_range_of max_row) [0..<length (row_range_of max_row) - 1] [] log2
        = (Inr slices, log3)"
  then have p: "0 < max_row" by simp
  have s: "get_data w table reporting_year rows_limit log = get_chunks w table q max_row log2"
    using a get_data_steps [of w table reporting_year log q log1 rows_limit max_row log2] by blast
  show "\<exists>df. merge_slices slices = Inr df \<and>
            get_data w table reporting_year rows_limit log = (Inr (Some df), log3)"
    unfolding s using get_chunks_slices_ok [OF p, of w table q log2 slices log3] a by blast
next
  assume a: "get_reporting_year_query w table reporting_year log = (Inr q, log1) \<and>
      get_max_row w table q rows_limit log1 = (Inr max_row, log2) \<and>
      0 \<le> max_row \<and> max_row \<noteq> 0 \<and>
      fetch_slices w table q (row_range_of max_row) [0..<length (row_range_of max_row) - 1] [] log2
        = (Inl e, log3)"
  then have p: "0 < max_row" by simp
  have s: "get_data w table reporting_year rows_limit log = get_chunks w table q max_row log2"
    using a get_data_steps [of w table reporting_year log q log1 rows_limit max_row log2] by blast
  show "get_data w table reporting_year rows_limit log = (Inl e, log3)"
    unfolding s using get_chunks_slices_fail [OF p, of w table q log2 e log3] a by blast
qed

theorem no_data_sentinel_witness:
  "get_data (static_service (\<lambda>u. Some bare_count_response)) ''PUB_DIM_FACILITY'' None None [] =
     (Inr None, [Probe (count_path ''PUB_DIM_FACILITY'' (Some [])),
                 Fetch (count_path ''PUB_DIM_FACILITY'' (Some []))]) \<and>
   get_data slices_only ''PUB_DIM_FACILITY'' None (Some 12000) [] =
     (Inr (Some \<lparr>columns = [''FACILITY_ID'', ''REPORTING_YEAR''],
                   records = [[IntCell 1000001, IntCell 2021], [IntCell 1000002, IntCell 2021],
                              [IntCell 1000003, IntCell 2021]]\<rparr>),
      [Probe (slice_path ''PUB_DIM_FACILITY'' (Some []) 0 10000),
       Fetch (slice_path ''PUB_DIM_FACILITY'' (Some []) 0 10000),
       Probe (slice_path ''PUB_DIM_FACILITY'' (Some []) 10000 12000),
       Fetch (slice_path ''PUB_DIM_FACILITY'' (Some []) 10000 12000)]) \<and>
   get_data (static_service (\<lambda>u. None)) ''PUB_DIM_FACILITY'' None (Some 12000) [] =
     (Inl (AssertionError ''URL does not exist.''),
      [Probe (slice_path ''PUB_DIM_FACILITY'' (Some []) 0 10000)])"
proof -
  let ?w2 = "static_service (\<lambda>u. Some bare_count_response)"
  let ?down = "static_service (\<lambda>u. None)"
  let ?t = "''PUB_DIM_FACILITY''"
  let ?c = "count_path ?t (Some [])"
  let ?u1 = "slice_path ?t (Some []) 0 10000"
  let ?u2 = "slice_path ?t (Some []) 10000 12000"
  let ?e = "AssertionError ''URL does not exist.''"
  have q: "get_reporting_year_query w ?t None [] = (Inr [], [])" for w
    by (simp add: get_reporting_year_query_def)
  have m2: "get_max_row ?w2 ?t [] None [] = (Inr 0, [Probe ?c, Fetch ?c])"
    by (simp add: get_max_row_def get_row_count_def read_path_static(1) bare_count_response_def
        df_empty_def int_of_str_0)
  have 1: "get_data ?w2 ?t None None [] = (Inr None, [Probe ?c, Fetch ?c])"
    using no_data_sentinel [of ?w2 ?t None "[]" "[]" "[]" None "[Probe ?c, Fetch ?c]"] q m2 by blast
  have m: "get_max_row w ?t [] (Some 12000) [] = (Inr 12000, [])" for w
    by (simp add: get_max_row_def)
  have p: "(0::int) \<le> 12000 \<and> (12000::int) \<noteq> 0" by simp
  have r1: "read_path slices_only ?u1 [] = (Inr facility_rows, [] @ [Probe ?u1, Fetch ?u1])"
    unfolding slices_only_def by (rule read_path_static(1)) simp
  have r2: "read_path slices_only ?u2 ([] @ [Probe ?u1, Fetch ?u1]) =
              (Inr next_facility_rows, [] @ [Probe ?u1, Fetch ?u1, Probe ?u2, Fetch ?u2])"
    using read_path_static(1) [of _ ?u2 next_facility_rows "[Probe ?u1, Fetch ?u1]"]
    unfolding slices_only_def by (simp add: facility_paths)
  have f: "fetch_slices slices_only ?t [] (row_range_of 12000) [0..<length (row_range_of 12000) - 1] [] [] =
             (Inr [facility_rows, next_facility_rows], [Probe ?u1, Fetch ?u1, Probe ?u2, Fetch ?u2])"
    using fetch_facility_slices [OF r1 r2] by simp
  have "\<exists>df. merge_slices [facility_rows, next_facility_rows] = Inr df \<and>
          get_data slices_only ?t None (Some 12000) [] = (Inr (Some df), [Probe ?u1, Fetch ?u1, Probe ?u2, Fetch ?u2])"
    using no_data_sentinel [of slices_only ?t None "[]" "[]" "[]" "Some 12000" "[]" 12000
        "[facility_rows, next_facility_rows]" "[Probe ?u1, Fetch ?u1, Probe ?u2, Fetch ?u2]"]
      q [of slices_only] m [of slices_only] p f by blast
  then have 2: "get_data slices_only ?t None (Some 12000) [] =
     (Inr (Some \<lparr>columns = [''FACILITY_ID'', ''REPORTING_YEAR''],
                   records = [[IntCell 1000001, IntCell 2021], [IntCell 1000002, IntCell 2021],
                              [IntCell 1000003, IntCell 2021]]\<rparr>),
      [Probe ?u1, Fetch ?u1, Probe ?u2, Fetch ?u2])"
    by (auto simp add: merge_facility_slices)
  have ns: "[0..<length (row_range_of 12000) - 1] = [0, Suc 0]"
    by (simp add: row_range_of_12000 upt_rec)
  have g: "fetch_slices ?down ?t [] (row_range_of 12000) [0..<length (row_range_of 12000) - 1] [] [] =
             (Inl ?e, [Probe ?u1])"
    unfolding ns by (simp add: row_range_of_12000 get_table_slice_def read_path_static(2))
  have 3: "get_data ?down ?t None (Some 12000) [] = (Inl ?e, [Probe ?u1])"
    using no_data_sentinel [of ?down ?t None "[]" "[]" "[]" "Some 12000" "[]" 12000
        "[]" "[Probe ?u1]" ?e]
      q [of ?down] m [of ?down] p g by blast
  show ?thesis using 1 2 3 by simp
qed

section \<open>The row limit\<close>

text \<open>
  C9. A row limit of 0 is treated as no limit: \<open>get_data\<close> with \<open>rows=0\<close> is \<open>get_data\<close> with
  \<open>rows=None\<close>; it resolves the qualifier, asks the row counter for the total and downloads
  that many rows. With any other limit \<open>get_data\<close> resolves the qualifier and downloads the
  limit, without a count.
\<close>

theorem zero_limit_counts:
  "get_data w table reporting_year (Some 0) log = get_data w table reporting_year None log \<and>
   get_data w table reporting_year (Some 0) log =
     (case get_reporting_year_query w table reporting_year log of
        (Inl e, log1) \<Rightarrow> (Inl e, log1)
      | (Inr q, log1) \<Rightarrow>
          (case get_row_count w table (Some q) log1 of
             (Inl e, log2) \<Rightarrow> (Inl e, log2)
           | (Inr max_row, log2) \<Rightarrow> get_chunks w table q max_row log2)) \<and>
   (r \<noteq> 0 \<longrightarrow>
      get_data w table reporting_year (Some r) log =
        (case get_reporting_year_query w table reporting_year log of
           (Inl e, log1) \<Rightarrow> (Inl e, log1)
         | (Inr q, log1) \<Rightarrow> get_chunks w table q r log1)) \<and>
   (get_reporting_year_query w table reporting_year log = (Inr q, log1) \<longrightarrow>
      get_data w table reporting_year (Some 0) log =
        (case get_row_count w table (Some q) log1 of
           (Inl e, log2) \<Rightarrow> (Inl e, log2)
         | (Inr max_row, log2) \<Rightarrow> get_chunks w table q max_row log2)) \<and>
   (get_reporting_year_query w table reporting_year log = (Inr q, log1) \<and> r \<noteq> 0 \<longrightarrow>
      get_data w table reporting_year (Some r) log = get_chunks w table q r log1) \<and>
   get_max_row w table q (Some 0) log = get_row_count w table (Some q) log \<and>
   get_max_row w table q None log = get_row_count w table (Some q) log \<and>
   (r \<noteq> 0 \<longrightarrow> get_max_row w table q (Some r) log = (Inr r, log))"
proof -
  have eq: "get_max_row w table q' (Some 0) log' = get_max_row w table q' None log'" for q' log'
    by (simp add: get_max_row_def)
  have c0: "get_max_row w table q' (Some 0) log' = get_row_count w table (Some q') log'" for q' log'
    by (simp add: get_max_row_def)
  have 1: "get_data w table reporting_year (Some 0) log = get_data w table reporting_year None log"
    unfolding get_data_def eq ..
  have 2: "get_data w table reporting_year (Some 0) log =
     (case get_reporting_year_query w table reporting_year log of
        (Inl e, log1) \<Rightarrow> (Inl e, log1)
      | (Inr q, log1) \<Rightarrow>
          (case get_row_count w table (Some q) log1 of
             (Inl e, log2) \<Rightarrow> (Inl e, log2)
           | (Inr max_row, log2) \<Rightarrow> get_chunks w table q max_row log2))"
    unfolding get_data_def c0 ..
  have 3: "get_data w table reporting_year (Some r) log =
        (case get_reporting_year_query w table reporting_year log of
           (Inl e, log1) \<Rightarrow> (Inl e, log1)
         | (Inr q, log1) \<Rightarrow> get_chunks w table q r log1)" if "r \<noteq> 0"
  proof -
    have "get_max_row w table q' (Some r) log' = (Inr r, log')" for q' log'
      using that by (simp add: get_max_row_def)
    then show ?thesis by (simp add: get_data_def split: prod.splits sum.splits)
  qed
  have nz: "r \<noteq> 0 \<longrightarrow>
      get_data w table reporting_year (Some r) log =
        (case get_reporting_year_query w table reporting_year log of
           (Inl e, log1) \<Rightarrow> (Inl e, log1)
         | (Inr q, log1) \<Rightarrow> get_chunks w table q r log1)"
    using 3 by (rule impI)
  have 4: "get_reporting_year_query w table reporting_year log = (Inr q, log1) \<longrightarrow>
      get_data w table reporting_year (Some 0) log =
        (case get_row_count w table (Some q) log1 of
           (Inl e, log2) \<Rightarrow> (Inl e, log2)
         | (Inr max_row, log2) \<Rightarrow> get_chunks w table q max_row log2)"
    by (simp add: get_data_def get_max_row_def)
  have 5: "get_reporting_year_query w table reporting_year log = (Inr q, log1) \<and> r \<noteq> 0 \<longrightarrow>
      get_data w table reporting_year (Some r) log = get_chunks w table q r log1"
    by (simp add: get_data_def get_max_row_def)
  have 6: "get_max_row w table q (Some 0) log = get_row_count w table (Some q) log"
    by (simp add: get_max_row_def)
  have 7: "get_max_row w table q None log = get_row_count w table (Some q) log"
    by (simp add: get_max_row_def)
  have 8: "r \<noteq> 0 \<longrightarrow> get_max_row w table q (Some r) log = (Inr r, log)"
    by (simp add: get_max_row_def)
  show ?thesis by (intro conjI 1 2 nz 4 5 6 7 8)
qed

theorem zero_limit_counts_witness:
  "get_data facility_service ''PUB_DIM_FACILITY'' None (Some 0) [] =
     (Inr (Some \<lparr>columns = [''FACILITY_ID'', ''REPORTING_YEAR''],
                   records = [[IntCell 1000001, IntCell 2021], [IntCell 1000002, IntCell 2021],
                              [IntCell 1000003, IntCell 2021]]\<rparr>),
      [Probe (count_path ''PUB_DIM_FACILITY'' (Some [])),
       Fetch (count_path ''PUB_DIM_FACILITY'' (Some [])),
       Probe (slice_path ''PUB_DIM_FACILITY'' (Some []) 0 10000),
       Fetch (slice_path ''PUB_DIM_FACILITY'' (Some []) 0 10000),
       Probe (slice_path ''PUB_DIM_FACILITY'' (Some []) 10000 12000),
       Fetch (slice_path ''PUB_DIM_FACILITY'' (Some []) 10000 12000)]) \<and>
   get_data facility_service ''PUB_DIM_FACILITY'' None None [] =
     get_data facility_service ''PUB_DIM_FACILITY'' None (Some 0) [] \<and>
   (5::int) \<noteq> 0 \<and>
   get_data facility_service ''PUB_DIM_FACILITY'' None (Some 5) [] =
     (Inl (AssertionError ''URL does not exist.''),
      [Probe (slice_path ''PUB_DIM_FACILITY'' (Some []) 0 5)])"
proof -
  let ?t = "''PUB_DIM_FACILITY''"
  let ?c = "count_path ?t (Some [])"
  let ?u1 = "slice_path ?t (Some []) 0 10000"
  let ?u2 = "slice_path ?t (Some []) 10000 12000"
  let ?u5 = "slice_path ?t (Some []) 0 5"
  note t = zero_limit_counts [of facility_service ?t None "[]" 5 "[]" "[]"]
  have q: "get_reporting_year_query facility_service ?t None [] = (Inr [], [])"
    by (simp add: get_reporting_year_query_def)
  have rc: "read_path facility_service ?c [] = (Inr count_response, [] @ [Probe ?c, Fetch ?c])"
    unfolding facility_service_def by (rule read_path_static(1)) simp
  have c: "get_row_count facility_service ?t (Some []) [] = (Inr 12000, [Probe ?c, Fetch ?c])"
    using rc by (simp add: get_row_count_def count_response_def column_values_def cell_at_def)
  have r1: "read_path facility_service ?u1 ([Probe ?c, Fetch ?c]) =
              (Inr facility_rows, [Probe ?c, Fetch ?c] @ [Probe ?u1, Fetch ?u1])"
    unfolding facility_service_def by (rule read_path_static(1)) (simp add: facility_paths(1) [symmetric])
  have r2: "read_path facility_service ?u2 ([Probe ?c, Fetch ?c] @ [Probe ?u1, Fetch ?u1]) =
              (Inr next_facility_rows, [Probe ?c, Fetch ?c] @ [Probe ?u1, Fetch ?u1, Probe ?u2, Fetch ?u2])"
    using read_path_static(1) [of _ ?u2 next_facility_rows "[Probe ?c, Fetch ?c, Probe ?u1, Fetch ?u1]"]
    unfolding facility_service_def by (simp add: facility_paths facility_paths(2) [symmetric])
  have f: "fetch_slices facility_service ?t [] (row_range_of 12000) [0..<length (row_range_of 12000) - 1] []
             [Probe ?c, Fetch ?c] =
             (Inr [facility_rows, next_facility_rows],
              [Probe ?c, Fetch ?c] @ [Probe ?u1, Fetch ?u1, Probe ?u2, Fetch ?u2])"
    by (rule fetch_facility_slices [OF r1 r2])
  have l: "1 < length (row_range_of 12000)" by (simp add: row_range_of_12000)
  have g: "get_chunks facility_service ?t [] 12000 [Probe ?c, Fetch ?c] =
             (Inr (Some \<lparr>columns = [''FACILITY_ID'', ''REPORTING_YEAR''],
                   records = [[IntCell 1000001, IntCell 2021], [IntCell 1000002, IntCell 2021],
                              [IntCell 1000003, IntCell 2021]]\<rparr>),
              [Probe ?c, Fetch ?c, Probe ?u1, Fetch ?u1, Probe ?u2, Fetch ?u2])"
    using l f by (simp add: get_chunks_def Let_def merge_facility_slices)
  have 1: "get_data facility_service ?t None (Some 0) [] =
             (case get_row_count facility_service ?t (Some []) [] of
                (Inl e, log2) \<Rightarrow> (Inl e, log2)
              | (Inr max_row, log2) \<Rightarrow> get_chunks facility_service ?t [] max_row log2)"
    using t q by blast
  have 2: "get_data facility_service ?t None (Some 0) [] = get_data facility_service ?t None None []"
    using t by blast
  have p: "(5::int) \<noteq> 0" by simp
  have 3: "get_data facility_service ?t None (Some 5) [] = get_chunks facility_service ?t [] 5 []"
    using t q p by blast
  have r5: "read_path facility_service ?u5 [] = (Inl (AssertionError ''URL does not exist.''), [] @ [Probe ?u5])"
    unfolding facility_service_def by (rule read_path_static(2)) (simp add: facility_paths)
  have 4: "get_chunks facility_service ?t [] 5 [] = (Inl (AssertionError ''URL does not exist.''), [Probe ?u5])"
    using r5 by (simp add: get_chunks_def Let_def row_range_of_5 get_table_slice_def)
  show ?thesis unfolding 3 4 using 1 2 c g by simp
qed

section \<open>Failures\<close>

lemma fetch_slices_append:
  "fetch_slices w t q rr (ns1 @ ns2) acc log =
     (case fetch_slices w t q rr ns1 acc log of
        (Inl e, log') \<Rightarrow> (Inl e, log')
      | (Inr acc', log') \<Rightarrow> fetch_slices w t q rr ns2 acc' log')"
  by (induction ns1 arbitrary: acc log) (simp_all split: prod.splits sum.splits)

lemma get_chunks_failure:
  assumes "[0..<length (row_range_of max_row) - 1] = ns_done @ n # ns_left"
    and "fetch_slices w table q (row_range_of max_row) ns_done [] log2 = (Inr slices, log3)"
    and "get_table_slice w table (row_range_of max_row ! n) (row_range_of max_row ! (n + 1)) (Some q) log3
           = (Inl e, log4)"
  shows "get_chunks w table q max_row log2 = (Inl e, log4)"
proof -
  have "[0..<length (row_range_of max_row) - 1] \<noteq> []" using assms(1) by simp
  then have l: "1 < length (row_range_of max_row)" by simp
  have "fetch_slices w table q (row_range_of max_row) (ns_done @ n # ns_left) [] log2 = (Inl e, log4)"
    unfolding fetch_slices_append using assms(2,3) by simp
  then show ?thesis using l assms(1) by (simp add: get_chunks_def Let_def)
qed

lemma get_table_slice_requests:
  "snd (get_table_slice w table s e cq log) = log @ [Probe (slice_path table cq s e)] \<or>
   snd (get_table_slice w table s e cq log) =
     log @ [Probe (slice_path table cq s e), Fetch (slice_path table cq s e)]"
  using read_path_requests [of w "slice_path table cq s e" log] by (simp add: get_table_slice_def)

lemma read_path_assertion_message:
  "read_path w path log = (Inl (AssertionError m), log') \<Longrightarrow> m = ''URL does not exist.''"
  by (simp add: read_path_def split: sum.splits if_splits)

lemma int_of_str_no_assertion: "int_of_str s \<noteq> Inl (AssertionError m)"
  by (simp add: int_of_str_def invalid_literal_def split: list.splits option.splits)

lemma py_int_no_assertion: "py_int v \<noteq> Inl (AssertionError m)"
  by (cases v) (simp_all add: int_of_str_no_assertion)

lemma get_row_count_assertion_message:
  assumes "get_row_count w table cq log = (Inl (AssertionError m), log')"
  shows "m = ''URL does not exist.''"
proof (cases "read_path w (count_path table cq) log")
  case (Pair r l)
  show ?thesis
  proof (cases r)
    case (Inl e)
    then have "get_row_count w table cq log = (Inl e, l)"
      using Pair by (simp add: get_row_count_def)
    then have "read_path w (count_path table cq) log = (Inl (AssertionError m), log')"
      using assms Pair Inl by simp
    then show ?thesis by (rule read_path_assertion_message)
  next
    case (Inr df)
    have "fst (get_row_count w table cq log) \<noteq> Inl (AssertionError m)"
      using Pair Inr
      by (simp add: get_row_count_def int_of_str_no_assertion py_int_no_assertion split: list.splits)
    then show ?thesis using assms by simp
  qed
qed

lemma get_reporting_year_query_assertion_message:
  assumes "get_reporting_year_query w table y log = (Inl (AssertionError m), log')"
  shows "m = ''URL does not exist.''"
proof (cases y)
  case None
  then show ?thesis using assms by (simp add: get_reporting_year_query_def)
next
  case (Some year)
  show ?thesis
  proof (cases "read_path w (probe_path table) log")
    case (Pair r l)
    show ?thesis
    proof (cases r)
      case (Inl e)
      then have "get_reporting_year_query w table y log = (Inl e, l)"
        using Pair Some by (simp add: get_reporting_year_query_def)
      then have "read_path w (probe_path table) log = (Inl (AssertionError m), log')"
        using assms Pair Inl by simp
      then show ?thesis by (rule read_path_assertion_message)
    next
      case (Inr df)
      have "fst (get_reporting_year_query w table y log) \<noteq> Inl (AssertionError m)"
        using Pair Inr Some by (simp add: get_reporting_year_query_def)
      then show ?thesis using assms by simp
    qed
  qed
qed

lemma get_max_row_assertion_message:
  assumes "get_max_row w table q r log = (Inl (AssertionError m), log')"
  shows "m = ''URL does not exist.''"
proof (cases "r = None \<or> r = Some 0")
  case True
  then have "get_max_row w table q r log = get_row_count w table (Some q) log"
    by (auto simp add: get_max_row_def)
  then have "get_row_count w table (Some q) log = (Inl (AssertionError m), log')"
    using assms by simp
  then show ?thesis by (rule get_row_count_assertion_message)
next
  case False
  then obtain n where "r = Some n" "n \<noteq> 0" by (cases r) auto
  then have "get_max_row w table q r log = (Inr n, log)" by (simp add: get_max_row_def)
  then show ?thesis using assms by simp
qed

lemma fetch_slices_assertion_message:
  "fetch_slices w t q rr ns acc log = (Inl (AssertionError m), log') \<Longrightarrow> m = ''URL does not exist.''"
proof (induction ns arbitrary: acc log)
  case Nil
  then show ?case by simp
next
  case (Cons n ns)
  let ?p = "slice_path t (Some q) (rr ! n) (rr ! (n + 1))"
  show ?case
  proof (cases "read_path w ?p log")
    case (Pair r l)
    show ?thesis
    proof (cases r)
      case (Inl e)
      then have "fetch_slices w t q rr (n # ns) acc log = (Inl e, l)"
        using Pair by (simp add: get_table_slice_def)
      then have "read_path w ?p log = (Inl (AssertionError m), log')"
        using Cons.prems Pair Inl by simp
      then show ?thesis by (rule read_path_assertion_message)
    next
      case (Inr df)
      then have "fetch_slices w t q rr (n # ns) acc log = fetch_slices w t q rr ns (acc @ [df]) l"
        using Pair by (simp add: get_table_slice_def)
      then show ?thesis using Cons.prems Cons.IH by simp
    qed
  qed
qed

lemma merge_slices_no_assertion: "merge_slices dfs \<noteq> Inl (AssertionError m)"
  by (simp add: merge_slices_def pd_concat_def Let_def)

lemma get_chunks_assertion_message:
  assumes "get_chunks w table q max_row log = (Inl (AssertionError m), log')"
  shows "m = ''URL does not exist.''"
proof (cases "1 < length (row_range_of max_row)")
  case False
  then have "get_chunks w table q max_row log = (Inr None, log)"
    by (simp add: get_chunks_def Let_def)
  then show ?thesis using assms by simp
next
  case True
  let ?f = "fetch_slices w table q (row_range_of max_row) [0..<length (row_range_of max_row) - 1] [] log"
  show ?thesis
  proof (cases ?f)
    case (Pair r l)
    show ?thesis
    proof (cases r)
      case (Inl e)
      then have "get_chunks w table q max_row log = (Inl e, l)"
        using True Pair by (simp add: get_chunks_def Let_def)
      then have "?f = (Inl (AssertionError m), log')" using assms Pair Inl by simp
      then show ?thesis by (rule fetch_slices_assertion_message)
    next
      case (Inr slices)
      have "fst (get_chunks w table q max_row log) \<noteq> Inl (AssertionError m)"
        using True Pair Inr merge_slices_no_assertion [of slices m]
        by (auto simp add: get_chunks_def Let_def split: sum.splits)
      then show ?thesis using assms by simp
    qed
  qed
qed

lemma get_data_assertion_message:
  assumes "get_data w table y r log = (Inl (AssertionError m), log')"
  shows "m = ''URL does not exist.''"
proof (cases "get_reporting_year_query w table y log")
  case (Pair a l1)
  show ?thesis
  proof (cases a)
    case (Inl e)
    then have "get_data w table y r log = (Inl e, l1)" using Pair by (simp add: get_data_def)
    then have "get_reporting_year_query w table y log = (Inl (AssertionError m), log')"
      using assms Pair Inl by simp
    then show ?thesis by (rule get_reporting_year_query_assertion_message)
  next
    case (Inr q)
    show ?thesis
    proof (cases "get_max_row w table q r l1")
      case (Pair b l2)
      note mr = this
      show ?thesis
      proof (cases b)
        case (Inl e)
        then have "get_data w table y r log = (Inl e, l2)"
          using \<open>get_reporting_year_query w table y log = (a, l1)\<close> Inr mr by (simp add: get_data_def)
        then have "get_max_row w table q r l1 = (Inl (AssertionError m), log')"
          using assms mr Inl by simp
        then show ?thesis by (rule get_max_row_assertion_message)
      next
        case (Inr max_row)
        then have "get_data w table y r log = get_chunks w table q max_row l2"
          using \<open>get_reporting_year_query w table y log = (a, l1)\<close> \<open>a = Inr q\<close> mr
          by (simp add: get_data_def)
        then have "get_chunks w table q max_row l2 = (Inl (AssertionError m), log')"
          using assms by simp
        then show ?thesis by (rule get_chunks_assertion_message)
      qed
    qed
  qed
qed

text \<open>
  C6, as stated, fails in its last part: the error that reaches the caller does not name
  the table. An unreachable probe of \<open>PUB_DIM_FACILITY\<close> raises the assertion error with the
  fixed message \<open>URL does not exist.\<close>, in which the name of the table does not occur.
\<close>

theorem error_names_no_table_counterexample:
  "get_data (static_service (\<lambda>u. None)) ''PUB_DIM_FACILITY'' (Some 2021) None [] =
     (Inl (AssertionError ''URL does not exist.''), [Probe (probe_path ''PUB_DIM_FACILITY'')]) \<and>
   \<not> contains (error_message (AssertionError ''URL does not exist.'')) ''PUB_DIM_FACILITY''"
  by (simp add: get_data_def get_reporting_year_query_def read_path_static(2) error_message_def)

text \<open>
  C6, amended. A failure of the year qualifier, of the row count or of a slice fetch is the
  outcome of \<open>get_data\<close>, unchanged: no table is returned, and the requests made are those up
  to the failing one. The failing slice was requested once (its probe, and its download if
  the probe passed) and no slice after it. The error is not given the name of the table:
  an assertion error of \<open>get_data\<close> always has the message \<open>URL does not exist.\<close>, whatever
  the table.
\<close>

theorem failure_aborts:
  "(get_reporting_year_query w table reporting_year log = (Inl e, log1) \<longrightarrow>
      get_data w table reporting_year rows_limit log = (Inl e, log1)) \<and>
   (get_reporting_year_query w table reporting_year log = (Inr q, log1) \<and>
      get_max_row w table q rows_limit log1 = (Inl e, log2) \<longrightarrow>
      get_data w table reporting_year rows_limit log = (Inl e, log2)) \<and>
   (get_reporting_year_query w table reporting_year log = (Inr q, log1) \<and>
      get_max_row w table q rows_limit log1 = (Inr max_row, log2) \<and>
      [0..<length (row_range_of max_row) - 1] = ns_done @ n # ns_left \<and>
      fetch_slices w table q (row_range_of max_row) ns_done [] log2 = (Inr slices, log3) \<and>
      get_table_slice w table (row_range_of max_row ! n) (row_range_of max_row ! (n + 1)) (Some q) log3
        = (Inl e, log4) \<longrightarrow>
      get_data w table reporting_year rows_limit log = (Inl e, log4) \<and>
      (log4 = log3 @ [Probe (slice_path table (Some q) (row_range_of max_row ! n) (row_range_of max_row ! (n + 1)))] \<or>
       log4 = log3 @ [Probe (slice_path table (Some q) (row_range_of max_row ! n) (row_range_of max_row ! (n + 1))),
                      Fetch (slice_path table (Some q) (row_range_of max_row ! n) (row_range_of max_row ! (n + 1)))])) \<and>
   (fst (get_data w table reporting_year rows_limit log) = Inl (AssertionError m) \<longrightarrow>
      m = ''URL does not exist.'')"
proof (intro conjI impI)
  assume "get_reporting_year_query w table reporting_year log = (Inl e, log1)"
  then show "get_data w table reporting_year rows_limit log = (Inl e, log1)"
    by (simp add: get_data_def)
next
  assume "get_reporting_year_query w table reporting_year log = (Inr q, log1) \<and>
      get_max_row w table q rows_limit log1 = (Inl e, log2)"
  then show "get_data w table reporting_year rows_limit log = (Inl e, log2)"
    by (simp add: get_data_def)
next
  assume a: "get_reporting_year_query w table reporting_year log = (Inr q, log1) \<and>
      get_max_row w table q rows_limit log1 = (Inr max_row, log2) \<and>
      [0..<length (row_range_of max_row) - 1] = ns_done @ n # ns_left \<and>
      fetch_slices w table q (row_range_of max_row) ns_done [] log2 = (Inr slices, log3) \<and>
      get_table_slice w table (row_range_of max_row ! n) (row_range_of max_row ! (n + 1)) (Some q) log3
        = (Inl e, log4)"
  then have "get_chunks w table q max_row log2 = (Inl e, log4)"
    using get_chunks_failure [of max_row ns_done n ns_left w table q log2 slices log3 e log4] by blast
  then show "get_data w table reporting_year rows_limit log = (Inl e, log4)"
    using a get_data_steps [of w table reporting_year log q log1 rows_limit max_row log2] by simp
  have "snd (get_table_slice w table (row_range_of max_row ! n) (row_range_of max_row ! (n + 1)) (Some q) log3) = log4"
    using a by simp
  then show "log4 = log3 @ [Probe (slice_path table (Some q) (row_range_of max_row ! n) (row_range_of max_row ! (n + 1)))] \<or>
       log4 = log3 @ [Probe (slice_path table (Some q) (row_range_of max_row ! n) (row_range_of max_row ! (n + 1))),
                      Fetch (slice_path table (Some q) (row_range_of max_row ! n) (row_range_of max_row ! (n + 1)))]"
    using get_table_slice_requests [of w table "row_range_of max_row ! n" "row_range_of max_row ! (n + 1)" "Some q" log3]
    by auto
next
  assume "fst (get_data w table reporting_year rows_limit log) = Inl (AssertionError m)"
  then have "get_data w table reporting_year rows_limit log =
      (Inl (AssertionError m), snd (get_data w table reporting_year rows_limit log))"
    by (simp add: prod_eq_iff)
  then show "m = ''URL does not exist.''" by (rule get_data_assertion_message)
qed

theorem failure_aborts_witness:
  "get_data (static_service (\<lambda>u. None)) ''PUB_DIM_FACILITY'' (Some 2021) None [] =
     (Inl (AssertionError ''URL does not exist.''), [Probe (probe_path ''PUB_DIM_FACILITY'')]) \<and>
   get_data (static_service (\<lambda>u. None)) ''PUB_DIM_FACILITY'' None None [] =
     (Inl (AssertionError ''URL does not exist.''), [Probe (count_path ''PUB_DIM_FACILITY'' (Some []))]) \<and>
   get_data (fails_after 2 facility_rows) ''PUB_DIM_FACILITY'' None (Some 12000) [] =
     (Inl (AssertionError ''URL does not exist.''),
      [Probe (slice_path ''PUB_DIM_FACILITY'' (Some []) 0 10000),
       Fetch (slice_path ''PUB_DIM_FACILITY'' (Some []) 0 10000),
       Probe (slice_path ''PUB_DIM_FACILITY'' (Some []) 10000 12000)])"
proof -
  let ?down = "static_service (\<lambda>u. None)"
  let ?w = "fails_after 2 facility_rows"
  let ?t = "''PUB_DIM_FACILITY''"
  let ?e = "AssertionError ''URL does not exist.''"
  let ?u1 = "slice_path ?t (Some []) 0 10000"
  let ?u2 = "slice_path ?t (Some []) 10000 12000"
  have q0: "get_reporting_year_query ?down ?t (Some 2021) [] = (Inl ?e, [Probe (probe_path ?t)])"
    by (simp add: get_reporting_year_query_def read_path_static(2))
  have 1: "get_data ?down ?t (Some 2021) None [] = (Inl ?e, [Probe (probe_path ?t)])"
    using failure_aborts [of ?down ?t "Some 2021" "[]" ?e "[Probe (probe_path ?t)]" None] q0 by blast
  have q: "get_reporting_year_query w ?t None [] = (Inr [], [])" for w
    by (simp add: get_reporting_year_query_def)
  have m0: "get_max_row ?down ?t [] None [] = (Inl ?e, [Probe (count_path ?t (Some []))])"
    by (simp add: get_max_row_def get_row_count_def read_path_static(2))
  have 2: "get_data ?down ?t None None [] = (Inl ?e, [Probe (count_path ?t (Some []))])"
    using failure_aborts [of ?down ?t None "[]" ?e "[]" None "[]" "[Probe (count_path ?t (Some []))]"] q m0
    by blast
  have m: "get_max_row ?w ?t [] (Some 12000) [] = (Inr 12000, [])"
    by (simp add: get_max_row_def)
  have ns: "[0..<length (row_range_of 12000) - 1] = [0] @ Suc 0 # []"
    by (simp add: row_range_of_12000 upt_rec)
  have f: "fetch_slices ?w ?t [] (row_range_of 12000) [0] [] [] = (Inr [facility_rows], [Probe ?u1, Fetch ?u1])"
    by (simp add: row_range_of_12000 get_table_slice_def read_path_def fails_after_def)
  have g: "get_table_slice ?w ?t (row_range_of 12000 ! Suc 0) (row_range_of 12000 ! (Suc 0 + 1)) (Some [])
             [Probe ?u1, Fetch ?u1] = (Inl ?e, [Probe ?u1, Fetch ?u1, Probe ?u2])"
    by (simp add: row_range_of_12000 get_table_slice_def read_path_def fails_after_def)
  have 3: "get_data ?w ?t None (Some 12000) [] = (Inl ?e, [Probe ?u1, Fetch ?u1, Probe ?u2])"
    using failure_aborts [of ?w ?t None "[]" ?e "[]" "Some 12000" "[]" "[]" 12000 "[0]" "Suc 0" "[]"
        "[facility_rows]" "[Probe ?u1, Fetch ?u1]" "[Probe ?u1, Fetch ?u1, Probe ?u2]"]
      q m ns f g by blast
  show ?thesis using 1 2 3 by simp
qed

end
